theory Spec2Isabelle
  imports Complex_Main "HOL-Library.Monad_Syntax" "HOL-Library.Char_ord" "HOL-Library.List_Lexorder"
begin

section \<open>JavaScript values\<close>

text \<open>
  The two components under study, \<^verbatim>\<open>ReportVisualization\<close> (the Chart Data Builder and the
  Aggregator) and \<^verbatim>\<open>ReportDialog\<close> (the Field Inspector and the configuration dialog), work
  on untyped payloads. The payload is modelled as a tree of JavaScript values, as
  \<^verbatim>\<open>JSON.parse\<close> produces it, extended with the two kinds of date-like object the code
  probes for.

  \<^item> Numbers are exact rationals together with \<^verbatim>\<open>NaN\<close> and the two infinities. Rounding,
    overflow and the negative zero of IEEE doubles are outside the model.
  \<^item> Strings are lists of 8-bit characters.
  \<^item> An object of the payload is the list of its own enumerable properties in insertion
    order, and a property that is not an own property reads as \<^verbatim>\<open>undefined\<close>: the members
    a payload value inherits from its prototype (\<^verbatim>\<open>constructor\<close>, \<^verbatim>\<open>toString\<close>, ...) are
    outside the model, so a field is not to be named like one of them. The dictionaries
    that the code builds itself, whose keys are values of the payload, are modelled with
    their inherited members.
  \<^item> A \<^verbatim>\<open>Date\<close> object is given by the three results the code can observe on it: what
    \<^verbatim>\<open>toISOString()\<close> returns (\<open>None\<close> when it raises a RangeError, as for an invalid
    date), what \<^verbatim>\<open>String(d)\<close> returns, and its time value.
  \<^item> \<open>VYear s\<close> is an object that is not a \<^verbatim>\<open>Date\<close> but exposes a \<^verbatim>\<open>getFullYear\<close>
    method; \<open>s\<close> is what \<^verbatim>\<open>String\<close> returns on it.
  \<^item> The payload is a tree: two different records never share an array or an object.
\<close>

datatype jsnum = NaN | PInf | NInf | Fin rat

datatype jsval =
    VUndefined
  | VNull
  | VBool bool
  | VNum jsnum
  | VStr string
  | VArr "jsval list"
  | VObj "(string \<times> jsval) list"
  | VDate "string option" string jsnum
  | VYear string

text \<open>An exception thrown by the code is the result \<open>None\<close>.\<close>

type_synonym 'a throws = "'a option"

definition typeof :: "jsval \<Rightarrow> string" where
  "typeof v = (case v of
      VUndefined \<Rightarrow> ''undefined''
    | VBool _ \<Rightarrow> ''boolean''
    | VNum _ \<Rightarrow> ''number''
    | VStr _ \<Rightarrow> ''string''
    | _ \<Rightarrow> ''object'')"

definition is_number :: "jsval \<Rightarrow> bool" where
  "is_number v = (case v of VNum _ \<Rightarrow> True | _ \<Rightarrow> False)"

definition is_string :: "jsval \<Rightarrow> bool" where
  "is_string v = (case v of VStr _ \<Rightarrow> True | _ \<Rightarrow> False)"

definition instanceof_Date :: "jsval \<Rightarrow> bool" where
  "instanceof_Date v = (case v of VDate _ _ _ \<Rightarrow> True | _ \<Rightarrow> False)"

text \<open>\<^verbatim>\<open>typeof v === 'object' && v !== null\<close>\<close>

definition is_object :: "jsval \<Rightarrow> bool" where
  "is_object v = (case v of
      VArr _ \<Rightarrow> True | VObj _ \<Rightarrow> True | VDate _ _ _ \<Rightarrow> True | VYear _ \<Rightarrow> True
    | _ \<Rightarrow> False)"

text \<open>\<^verbatim>\<open>typeof v.getFullYear === 'function'\<close>, for a \<open>v\<close> that is not null or undefined.\<close>

definition has_getFullYear :: "jsval \<Rightarrow> bool" where
  "has_getFullYear v = (case v of VDate _ _ _ \<Rightarrow> True | VYear _ \<Rightarrow> True | _ \<Rightarrow> False)"

definition nullish :: "jsval \<Rightarrow> bool" where
  "nullish v = (v = VUndefined \<or> v = VNull)"

definition truthy :: "jsval \<Rightarrow> bool" where
  "truthy v = (case v of
      VUndefined \<Rightarrow> False
    | VNull \<Rightarrow> False
    | VBool b \<Rightarrow> b
    | VNum n \<Rightarrow> n \<noteq> NaN \<and> n \<noteq> Fin 0
    | VStr s \<Rightarrow> s \<noteq> []
    | _ \<Rightarrow> True)"

text \<open>\<^verbatim>\<open>a || b\<close> on values.\<close>

definition js_or :: "jsval \<Rightarrow> jsval \<Rightarrow> jsval" where
  "js_or a b = (if truthy a then a else b)"

subsection \<open>Numbers\<close>

definition isNaN :: "jsnum \<Rightarrow> bool" where
  "isNaN n = (n = NaN)"

text \<open>\<^verbatim>\<open>n || 0\<close> on a number.\<close>

definition or_zero :: "jsnum \<Rightarrow> jsnum" where
  "or_zero n = (if n = NaN \<or> n = Fin 0 then Fin 0 else n)"

definition js_add :: "jsnum \<Rightarrow> jsnum \<Rightarrow> jsnum" where
  "js_add a b = (case (a, b) of
      (Fin x, Fin y) \<Rightarrow> Fin (x + y)
    | (NaN, _) \<Rightarrow> NaN
    | (_, NaN) \<Rightarrow> NaN
    | (PInf, NInf) \<Rightarrow> NaN
    | (NInf, PInf) \<Rightarrow> NaN
    | (PInf, _) \<Rightarrow> PInf
    | (_, PInf) \<Rightarrow> PInf
    | (NInf, _) \<Rightarrow> NInf
    | (_, NInf) \<Rightarrow> NInf)"

text \<open>Division of a number by the length of a non-empty array.\<close>

definition js_div_len :: "jsnum \<Rightarrow> nat \<Rightarrow> jsnum" where
  "js_div_len a n = (case a of Fin x \<Rightarrow> Fin (x / of_nat n) | _ \<Rightarrow> a)"

definition js_less :: "jsnum \<Rightarrow> jsnum \<Rightarrow> bool" where
  "js_less a b = (case (a, b) of
      (NaN, _) \<Rightarrow> False
    | (_, NaN) \<Rightarrow> False
    | (Fin x, Fin y) \<Rightarrow> x < y
    | (NInf, NInf) \<Rightarrow> False
    | (NInf, _) \<Rightarrow> True
    | (_, NInf) \<Rightarrow> False
    | (PInf, _) \<Rightarrow> False
    | (_, PInf) \<Rightarrow> True)"

text \<open>\<^verbatim>\<open>Math.min(...xs)\<close> and \<^verbatim>\<open>Math.max(...xs)\<close>: \<^verbatim>\<open>NaN\<close> as soon as one argument is.\<close>

definition Math_min :: "jsnum list \<Rightarrow> jsnum" where
  "Math_min xs = (if list_ex isNaN xs then NaN
                  else foldl (\<lambda>m x. if js_less x m then x else m) PInf xs)"

definition Math_max :: "jsnum list \<Rightarrow> jsnum" where
  "Math_max xs = (if list_ex isNaN xs then NaN
                  else foldl (\<lambda>m x. if js_less m x then x else m) NInf xs)"

subsection \<open>Characters and decimal numerals\<close>

definition is_digit :: "char \<Rightarrow> bool" where
  "is_digit c = (let n = (of_char c :: nat) in 48 \<le> n \<and> n \<le> 57)"

definition digit_val :: "char \<Rightarrow> nat" where
  "digit_val c = (of_char c :: nat) - 48"

definition digit_char :: "nat \<Rightarrow> char" where
  "digit_char d = char_of (48 + d)"

definition digits_val :: "string \<Rightarrow> int" where
  "digits_val ds = foldl (\<lambda>a c. 10 * a + int (digit_val c)) 0 ds"

fun nat_to_string :: "nat \<Rightarrow> string" where
  "nat_to_string n =
     (if n < 10 then [digit_char n] else nat_to_string (n div 10) @ [digit_char (n mod 10)])"

declare nat_to_string.simps [simp del]

text \<open>\<^verbatim>\<open>\w\<close> of a regular expression: an ASCII letter, a digit or the underscore.\<close>

definition is_lower :: "char \<Rightarrow> bool" where
  "is_lower c = (let n = (of_char c :: nat) in 97 \<le> n \<and> n \<le> 122)"

definition is_upper :: "char \<Rightarrow> bool" where
  "is_upper c = (let n = (of_char c :: nat) in 65 \<le> n \<and> n \<le> 90)"

definition is_word_char :: "char \<Rightarrow> bool" where
  "is_word_char c = (is_digit c \<or> is_lower c \<or> is_upper c \<or> c = CHR ''_'')"

definition to_upper :: "char \<Rightarrow> char" where
  "to_upper c = (if is_lower c then char_of ((of_char c :: nat) - 32) else c)"

text \<open>White space, as \<^verbatim>\<open>parseFloat\<close>, the conversion to a number and \<^verbatim>\<open>trim\<close> skip it:
  tab, the line terminators, vertical tab, form feed, the space and the no-break space.\<close>

definition is_space :: "char \<Rightarrow> bool" where
  "is_space c = (let n = (of_char c :: nat) in (9 \<le> n \<and> n \<le> 13) \<or> n = 32 \<or> n = 160)"

subsection \<open>Conversion to a string\<close>

text \<open>
  \<^verbatim>\<open>String(n)\<close> for a number. Integers print as in JavaScript; a fraction prints its
  decimal expansion, cut after 20 digits. The exponent notation JavaScript uses from
  \<open>10\<^sup>2\<^sup>1\<close> on and below \<open>10\<^sup>-\<^sup>6\<close> is outside the model.
\<close>

fun frac_digits :: "nat \<Rightarrow> rat \<Rightarrow> string" where
  "frac_digits 0 f = []"
| "frac_digits (Suc n) f =
     (if f = 0 then []
      else (let d = nat \<lfloor>f * 10\<rfloor> in digit_char d # frac_digits n (f * 10 - of_nat d)))"

definition pos_rat_to_string :: "rat \<Rightarrow> string" where
  "pos_rat_to_string q =
     (let ip = nat \<lfloor>q\<rfloor>; f = q - of_nat ip
      in nat_to_string ip @ (if f = 0 then [] else CHR ''.'' # frac_digits 20 f))"

definition Number_toString :: "jsnum \<Rightarrow> string" where
  "Number_toString n = (case n of
      NaN \<Rightarrow> ''NaN''
    | PInf \<Rightarrow> ''Infinity''
    | NInf \<Rightarrow> ''-Infinity''
    | Fin q \<Rightarrow> (if q < 0 then CHR ''-'' # pos_rat_to_string (- q) else pos_rat_to_string q))"

fun join_comma :: "string list \<Rightarrow> string" where
  "join_comma [] = []"
| "join_comma [s] = s"
| "join_comma (s # t # ss) = s @ '','' @ join_comma (t # ss)"

text \<open>\<^verbatim>\<open>String(v)\<close>; an array joins its elements with commas, null and undefined as empty.\<close>

fun ToString :: "jsval \<Rightarrow> string" where
  "ToString VUndefined = ''undefined''"
| "ToString VNull = ''null''"
| "ToString (VBool b) = (if b then ''true'' else ''false'')"
| "ToString (VNum n) = Number_toString n"
| "ToString (VStr s) = s"
| "ToString (VArr xs) =
     join_comma (map (\<lambda>x. if x = VUndefined \<or> x = VNull then [] else ToString x) xs)"
| "ToString (VObj kvs) = ''[object Object]''"
| "ToString (VDate i s t) = s"
| "ToString (VYear s) = s"

subsection \<open>Parsing numbers\<close>

definition scan_exponent :: "string \<Rightarrow> int \<times> string" where
  "scan_exponent s = (case s of
      [] \<Rightarrow> (0, s)
    | c # t \<Rightarrow>
        if c = CHR ''e'' \<or> c = CHR ''E'' then
          (let neg = (case t of d # _ \<Rightarrow> d = CHR ''-'' | [] \<Rightarrow> False);
               u = (case t of d # u' \<Rightarrow> if d = CHR ''-'' \<or> d = CHR ''+'' then u' else t
                    | [] \<Rightarrow> t);
               ds = takeWhile is_digit u
           in if ds = [] then (0, s)
              else (if neg then - digits_val ds else digits_val ds,
                    dropWhile is_digit u))
        else (0, s))"

definition scale10 :: "rat \<Rightarrow> int \<Rightarrow> rat" where
  "scale10 m e = (if 0 \<le> e then m * 10 ^ nat e else m / 10 ^ nat (- e))"

text \<open>
  The longest prefix that is an unsigned decimal literal (digits, an optional fraction,
  an optional exponent), with its value and the rest of the string; \<open>None\<close> when the
  string starts with no such literal.
\<close>

definition scan_decimal :: "string \<Rightarrow> (rat \<times> string) option" where
  "scan_decimal s =
     (let ip = takeWhile is_digit s;
          r1 = dropWhile is_digit s;
          dot = (case r1 of c # _ \<Rightarrow> c = CHR ''.'' | [] \<Rightarrow> False);
          fp = (if dot then takeWhile is_digit (tl r1) else []);
          r2 = (if dot then dropWhile is_digit (tl r1) else r1)
      in if ip = [] \<and> fp = [] then None
         else (let m = of_int (digits_val ip) + of_int (digits_val fp) / 10 ^ length fp;
                   (e, r3) = scan_exponent r2
               in Some (scale10 m e, r3)))"

definition starts_with :: "string \<Rightarrow> string \<Rightarrow> bool" where
  "starts_with p s = (take (length p) s = p)"

text \<open>A signed literal or \<^verbatim>\<open>Infinity\<close> at the start of a string.\<close>

definition scan_signed :: "string \<Rightarrow> (jsnum \<times> string) option" where
  "scan_signed s =
     (let neg = (case s of c # _ \<Rightarrow> c = CHR ''-'' | [] \<Rightarrow> False);
          u = (case s of c # t \<Rightarrow> if c = CHR ''-'' \<or> c = CHR ''+'' then t else s | [] \<Rightarrow> s)
      in if starts_with ''Infinity'' u then Some (if neg then NInf else PInf, drop 8 u)
         else (case scan_decimal u of
                 None \<Rightarrow> None
               | Some (q, r) \<Rightarrow> Some (Fin (if neg then - q else q), r)))"

text \<open>\<^verbatim>\<open>parseFloat\<close> on a string: leading white space is skipped, trailing text ignored.\<close>

definition parseFloat_str :: "string \<Rightarrow> jsnum" where
  "parseFloat_str s = (case scan_signed (dropWhile is_space s) of
      None \<Rightarrow> NaN
    | Some (n, _) \<Rightarrow> n)"

text \<open>
  \<^verbatim>\<open>parseFloat(v)\<close> converts its argument to a string first. A number prints and parses
  back to itself, so it is passed through.
\<close>

definition parseFloat :: "jsval \<Rightarrow> jsnum" where
  "parseFloat v = (case v of VNum n \<Rightarrow> n | _ \<Rightarrow> parseFloat_str (ToString v))"

text \<open>
  The value of a digit in a base up to 16, and of a non-empty string of digits of base
  \<open>b\<close>; \<open>None\<close> when a character is no digit of that base.
\<close>

definition digit_of :: "char \<Rightarrow> nat option" where
  "digit_of c = (let n = (of_char c :: nat)
                 in if 48 \<le> n \<and> n \<le> 57 then Some (n - 48)
                    else if 97 \<le> n \<and> n \<le> 102 then Some (n - 87)
                    else if 65 \<le> n \<and> n \<le> 70 then Some (n - 55)
                    else None)"

definition radix_val :: "nat \<Rightarrow> string \<Rightarrow> int option" where
  "radix_val b ds =
     (if ds \<noteq> [] \<and> list_all (\<lambda>c. case digit_of c of Some d \<Rightarrow> d < b | None \<Rightarrow> False) ds
      then Some (foldl (\<lambda>a c. int b * a + int (case digit_of c of Some d \<Rightarrow> d | None \<Rightarrow> 0)) 0 ds)
      else None)"

text \<open>A whole string that is a hexadecimal, octal or binary literal: \<^verbatim>\<open>0x1F\<close>, \<^verbatim>\<open>0o17\<close>,
  \<^verbatim>\<open>0b101\<close>. Such a literal takes no sign.\<close>

definition scan_radix :: "string \<Rightarrow> jsnum option" where
  "scan_radix t = (case t of
      z # x # ds \<Rightarrow>
        (let b = (if x = CHR ''x'' \<or> x = CHR ''X'' then 16
                  else if x = CHR ''o'' \<or> x = CHR ''O'' then 8
                  else if x = CHR ''b'' \<or> x = CHR ''B'' then 2
                  else (0 :: nat))
         in if z = CHR ''0'' \<and> b \<noteq> 0
            then map_option (\<lambda>n. Fin (of_int n)) (radix_val b ds)
            else None)
    | _ \<Rightarrow> None)"

text \<open>
  The conversion of a string to a number, as the comparison operators apply it: white
  space is trimmed at both ends, the empty string is 0, and the whole rest must be one
  literal, decimal or not.
\<close>

definition trim :: "string \<Rightarrow> string" where
  "trim s = rev (dropWhile is_space (rev (dropWhile is_space s)))"

definition StringToNumber :: "string \<Rightarrow> jsnum" where
  "StringToNumber s =
     (let t = trim s
      in if t = [] then Fin 0
         else (case scan_radix t of
                 Some n \<Rightarrow> n
               | None \<Rightarrow>
                   (case scan_signed t of
                      None \<Rightarrow> NaN
                    | Some (n, r) \<Rightarrow> if r = [] then n else NaN)))"

text \<open>
  \<^verbatim>\<open>ToNumber\<close>, as a relational operator applies it: an object is converted to a primitive
  first, a \<^verbatim>\<open>Date\<close> to its time value and every other object to its string.
\<close>

definition ToNumber :: "jsval \<Rightarrow> jsnum" where
  "ToNumber v = (case v of
      VUndefined \<Rightarrow> NaN
    | VNull \<Rightarrow> Fin 0
    | VBool b \<Rightarrow> Fin (if b then 1 else 0)
    | VNum n \<Rightarrow> n
    | VStr s \<Rightarrow> StringToNumber s
    | VDate i s t \<Rightarrow> t
    | _ \<Rightarrow> StringToNumber (ToString v))"

text \<open>\<^verbatim>\<open>v > 0\<close>\<close>

definition gt_zero :: "jsval \<Rightarrow> bool" where
  "gt_zero v = js_less (Fin 0) (ToNumber v)"

subsection \<open>Properties\<close>

text \<open>
  A property name is an array index when it is the canonical decimal numeral of a
  natural number below \<open>2\<^sup>3\<^sup>2 - 1\<close>. An object enumerates these first, in ascending
  order, and then its other properties in insertion order.
\<close>

definition is_index :: "string \<Rightarrow> bool" where
  "is_index k = (k \<noteq> [] \<and> list_all is_digit k \<and> (k = ''0'' \<or> take 1 k \<noteq> ''0'')
                 \<and> digits_val k < 4294967295)"

definition own_keys :: "(string \<times> 'a) list \<Rightarrow> string list" where
  "own_keys kvs =
     (let ks' = rev (remdups (rev (map fst kvs)))
      in sort_key digits_val (filter is_index ks') @ filter (\<lambda>k. \<not> is_index k) ks')"

text \<open>
  \<^verbatim>\<open>v[k]\<close> for a string \<open>k\<close>. Reading a property of null or undefined raises a TypeError.
\<close>

definition get :: "jsval \<Rightarrow> string \<Rightarrow> jsval throws" where
  "get v k = (case v of
      VUndefined \<Rightarrow> None
    | VNull \<Rightarrow> None
    | VObj kvs \<Rightarrow> Some (case map_of kvs k of Some x \<Rightarrow> x | None \<Rightarrow> VUndefined)
    | VArr xs \<Rightarrow>
        Some (if k = ''length'' then VNum (Fin (of_nat (length xs)))
              else if is_index k \<and> nat (digits_val k) < length xs then xs ! nat (digits_val k)
              else VUndefined)
    | VStr s \<Rightarrow>
        Some (if k = ''length'' then VNum (Fin (of_nat (length s)))
              else if is_index k \<and> nat (digits_val k) < length s then VStr [s ! nat (digits_val k)]
              else VUndefined)
    | _ \<Rightarrow> Some VUndefined)"

text \<open>\<^verbatim>\<open>v[f]\<close> for a value \<open>f\<close>: the property name is the string of \<open>f\<close>.\<close>

definition get_at :: "jsval \<Rightarrow> jsval \<Rightarrow> jsval throws" where
  "get_at v f = get v (ToString f)"

text \<open>A property read where the receiver is known not to be null or undefined, as inside
  a \<^verbatim>\<open>for ... in\<close> loop over it.\<close>

definition read_prop :: "jsval \<Rightarrow> string \<Rightarrow> jsval" where
  "read_prop v k = (case get v k of Some x \<Rightarrow> x | None \<Rightarrow> VUndefined)"

text \<open>The keys a \<^verbatim>\<open>for ... in\<close> loop visits; it visits nothing on null and undefined.\<close>

definition enum_keys :: "jsval \<Rightarrow> string list" where
  "enum_keys v = (case v of
      VObj kvs \<Rightarrow> own_keys kvs
    | VArr xs \<Rightarrow> map nat_to_string [0 ..< length xs]
    | VStr s \<Rightarrow> map nat_to_string [0 ..< length s]
    | _ \<Rightarrow> [])"

text \<open>\<^verbatim>\<open>Object.entries(v)\<close>, which raises a TypeError on null and undefined.\<close>

definition Object_entries :: "jsval \<Rightarrow> (string \<times> jsval) list throws" where
  "Object_entries v =
     (if nullish v then None
      else Some (map (\<lambda>k. (k, read_prop v k)) (enum_keys v)))"

text \<open>The receiver of an array method (\<^verbatim>\<open>map\<close>, \<^verbatim>\<open>filter\<close>, \<^verbatim>\<open>find\<close>, \<^verbatim>\<open>forEach\<close>,
  \<^verbatim>\<open>reduce\<close>): anything but an array has no such method, and the call raises a TypeError.\<close>

definition as_array :: "jsval \<Rightarrow> jsval list throws" where
  "as_array v = (case v of VArr xs \<Rightarrow> Some xs | _ \<Rightarrow> None)"

text \<open>The receiver of a string method (\<^verbatim>\<open>replace\<close>, \<^verbatim>\<open>split\<close>).\<close>

definition as_string :: "jsval \<Rightarrow> string throws" where
  "as_string v = (case v of VStr s \<Rightarrow> Some s | _ \<Rightarrow> None)"

text \<open>A loop body that may throw, run over a list from left to right.\<close>

fun mapM :: "('a \<Rightarrow> 'b throws) \<Rightarrow> 'a list \<Rightarrow> 'b list throws" where
  "mapM f [] = Some []"
| "mapM f (x # xs) = do { y \<leftarrow> f x; ys \<leftarrow> mapM f xs; Some (y # ys) }"

fun foldM :: "('s \<Rightarrow> 'a \<Rightarrow> 's throws) \<Rightarrow> 's \<Rightarrow> 'a list \<Rightarrow> 's throws" where
  "foldM f s [] = Some s"
| "foldM f s (x # xs) = do { s' \<leftarrow> f s x; foldM f s' xs }"

text \<open>\<^verbatim>\<open>xs.find(p)\<close> with a predicate that may throw; \<open>Some None\<close> is \<^verbatim>\<open>undefined\<close>.\<close>

fun findM :: "('a \<Rightarrow> bool throws) \<Rightarrow> 'a list \<Rightarrow> 'a option throws" where
  "findM p [] = Some None"
| "findM p (x # xs) = do { b \<leftarrow> p x; if b then Some (Some x) else findM p xs }"

subsection \<open>Equality\<close>

text \<open>
  A value read from record number \<open>i\<close> is kept with \<open>i\<close>: the payload being a tree, two
  arrays or objects read from the same field are the same object exactly when they come
  from the same record.
\<close>

type_synonym jsref = "nat \<times> jsval"

text \<open>The equality of \<^verbatim>\<open>Set\<close>: primitives by value (\<^verbatim>\<open>NaN\<close> equals itself), objects by identity.\<close>

definition same_value_zero :: "jsref \<Rightarrow> jsref \<Rightarrow> bool" where
  "same_value_zero a b =
     (if is_object (snd a) \<or> is_object (snd b)
      then is_object (snd a) \<and> is_object (snd b) \<and> fst a = fst b
      else snd a = snd b)"

definition num_eq :: "jsnum \<Rightarrow> jsnum \<Rightarrow> bool" where
  "num_eq x y = (x \<noteq> NaN \<and> x = y)"

text \<open>\<^verbatim>\<open>==\<close> on two primitive values.\<close>

definition prim_loose_eq :: "jsval \<Rightarrow> jsval \<Rightarrow> bool" where
  "prim_loose_eq v w =
     (if nullish v \<or> nullish w then nullish v \<and> nullish w
      else (case (v, w) of
              (VStr a, VStr b) \<Rightarrow> a = b
            | (VBool a, VBool b) \<Rightarrow> a = b
            | _ \<Rightarrow> num_eq (ToNumber v) (ToNumber w)))"

text \<open>
  \<^verbatim>\<open>==\<close>: two objects are equal when they are the same object; an object compared with a
  primitive is converted to its string first.
\<close>

definition loose_eq :: "jsref \<Rightarrow> jsref \<Rightarrow> bool" where
  "loose_eq a b =
     (if is_object (snd a) \<and> is_object (snd b) then fst a = fst b
      else if is_object (snd a) then prim_loose_eq (VStr (ToString (snd a))) (snd b)
      else if is_object (snd b) then prim_loose_eq (snd a) (VStr (ToString (snd b)))
      else prim_loose_eq (snd a) (snd b))"

text \<open>\<^verbatim>\<open>[...new Set(xs)]\<close>: the first occurrence of every value, in order.\<close>

definition Set_values :: "jsref list \<Rightarrow> jsref list" where
  "Set_values xs =
     foldl (\<lambda>acc x. if list_ex (\<lambda>y. same_value_zero y x) acc then acc else acc @ [x]) [] xs"

subsection \<open>Strings\<close>

text \<open>\<^verbatim>\<open>/^\d{4}-\d{2}-\d{2}/.test(s)\<close>\<close>

definition iso_date_prefix :: "string \<Rightarrow> bool" where
  "iso_date_prefix s =
     (10 \<le> length s
      \<and> list_all is_digit (take 4 s) \<and> s ! 4 = CHR ''-''
      \<and> list_all is_digit (take 2 (drop 5 s)) \<and> s ! 7 = CHR ''-''
      \<and> list_all is_digit (take 2 (drop 8 s)))"

text \<open>\<^verbatim>\<open>s.split(c)[0]\<close> for a one-character separator.\<close>

definition split_first :: "char \<Rightarrow> string \<Rightarrow> string" where
  "split_first c s = takeWhile (\<lambda>x. x \<noteq> c) s"

text \<open>\<^verbatim>\<open>s.split('T')[0].split(' ')[0]\<close>\<close>

definition date_part :: "string \<Rightarrow> string" where
  "date_part s = split_first CHR '' '' (split_first CHR ''T'' s)"

text \<open>\<^verbatim>\<open>s.endsWith(p)\<close> and \<^verbatim>\<open>s.includes(p)\<close>\<close>

definition ends_with :: "string \<Rightarrow> string \<Rightarrow> bool" where
  "ends_with p s = (length p \<le> length s \<and> drop (length s - length p) s = p)"

fun includes_str :: "string \<Rightarrow> string \<Rightarrow> bool" where
  "includes_str p [] = (p = [])"
| "includes_str p (c # cs) = (starts_with p (c # cs) \<or> includes_str p cs)"

text \<open>\<^verbatim>\<open>s.replace(p, r)\<close> with a string pattern: the first occurrence only.\<close>

fun replace_first :: "string \<Rightarrow> string \<Rightarrow> string \<Rightarrow> string" where
  "replace_first p r [] = (if p = [] then r else [])"
| "replace_first p r (c # cs) =
     (if starts_with p (c # cs) then r @ drop (length p) (c # cs)
      else c # replace_first p r cs)"

text \<open>\<^verbatim>\<open>s.replace(/_/g, ' ').replace(/\b\w/g, l => l.toUpperCase())\<close>: the second step
  turns to upper case every word character that follows the start or a non-word character.\<close>

fun capitalize_words :: "bool \<Rightarrow> string \<Rightarrow> string" where
  "capitalize_words b [] = []"
| "capitalize_words b (c # cs) =
     (if is_word_char c then (if b then to_upper c else c) # capitalize_words False cs
      else c # capitalize_words True cs)"

definition title_case :: "string \<Rightarrow> string" where
  "title_case f = capitalize_words True (map (\<lambda>c. if c = CHR ''_'' then CHR '' '' else c) f)"

text \<open>The technical fields: \<^verbatim>\<open>['id', 'has_linked_data'].includes(f) || f.endsWith('_info')\<close>\<close>

definition technical :: "string \<Rightarrow> bool" where
  "technical f = (f = ''id'' \<or> f = ''has_linked_data'' \<or> ends_with ''_info'' f)"

section \<open>The Aggregator\<close>

text \<open>
  The coercion of a field value to a number, which \<^verbatim>\<open>_aggregateValues\<close> applies for
  \<^verbatim>\<open>none\<close> and for the numeric aggregations, and the legacy rule for its measure:
  \<^verbatim>\<open>typeof value === 'number' ? value : (Array.isArray(value) && value.length > 0 ?
  parseFloat(value[0]) || 0 : parseFloat(value) || 0)\<close>
\<close>

definition coerce_measure :: "jsval \<Rightarrow> jsnum" where
  "coerce_measure v = (case v of
      VNum n \<Rightarrow> n
    | VArr (x # xs) \<Rightarrow> or_zero (parseFloat x)
    | _ \<Rightarrow> or_zero (parseFloat v))"

text \<open>\<^verbatim>\<open>_aggregateValues(records, field, aggregationType)\<close>\<close>

definition aggregateValues :: "jsval list \<Rightarrow> jsval \<Rightarrow> jsval \<Rightarrow> jsnum throws" where
  "aggregateValues records field aggregationType =
     (case records of
        [] \<Rightarrow> Some (Fin 0)
      | first # others \<Rightarrow>
          if aggregationType = VStr ''none'' then
            do { v \<leftarrow> get_at first field; Some (coerce_measure v) }
          else if aggregationType = VStr ''count'' then Some (Fin (of_nat (length records)))
          else do {
            vs \<leftarrow> mapM (\<lambda>record. do { v \<leftarrow> get_at record field; Some (coerce_measure v) })
                    records;
            let numericValues = filter (\<lambda>v. \<not> isNaN v) vs;
            if numericValues = [] then Some (Fin 0)
            else if aggregationType = VStr ''sum'' then Some (foldl js_add (Fin 0) numericValues)
            else if aggregationType = VStr ''average'' then
              Some (js_div_len (foldl js_add (Fin 0) numericValues) (length numericValues))
            else if aggregationType = VStr ''min'' then Some (Math_min numericValues)
            else if aggregationType = VStr ''max'' then Some (Math_max numericValues)
            else Some (Fin (of_nat (length records)))
          })"

section \<open>The Chart Data Builder\<close>

subsection \<open>Colours, datasets and the sample data\<close>

definition colors :: "string list" where
  "colors = [''rgba(75, 192, 192, 0.8)'', ''rgba(255, 99, 132, 0.8)'',
             ''rgba(54, 162, 235, 0.8)'', ''rgba(255, 206, 86, 0.8)'',
             ''rgba(153, 102, 255, 0.8)'', ''rgba(255, 159, 64, 0.8)'',
             ''rgba(240, 240, 240, 0.8)'', ''rgba(220, 220, 220, 0.8)'',
             ''rgba(200, 200, 200, 0.8)'', ''rgba(180, 180, 180, 0.8)'']"

definition getColor :: "nat \<Rightarrow> string" where
  "getColor index = colors ! (index mod length colors)"

definition num :: "nat \<Rightarrow> jsval" where
  "num n = VNum (Fin (of_nat n))"

definition chart :: "jsval \<Rightarrow> jsval list \<Rightarrow> jsval" where
  "chart labels datasets = VObj [(''labels'', labels), (''datasets'', VArr datasets)]"

text \<open>The dataset of a chart with one series: the background is one colour per label for a
  pie and a fixed colour otherwise.\<close>

definition single_dataset :: "jsval \<Rightarrow> jsval \<Rightarrow> nat \<Rightarrow> jsval \<Rightarrow> jsval" where
  "single_dataset visualizationType label n values =
     VObj [(''label'', label),
           (''data'', values),
           (''backgroundColor'',
              if visualizationType = VStr ''pie''
              then VArr (map (\<lambda>i. VStr (getColor i)) [0 ..< n])
              else VStr ''rgba(75, 192, 192, 0.2)''),
           (''borderColor'', VStr ''rgba(75, 192, 192, 1)''),
           (''borderWidth'', num 1)]"

text \<open>One dataset of a stacked chart.\<close>

definition series_dataset :: "nat \<Rightarrow> jsval \<Rightarrow> jsnum list \<Rightarrow> jsval" where
  "series_dataset index seriesValue seriesData =
     VObj [(''label'', VStr (if truthy seriesValue then ToString seriesValue
                            else ''Series '' @ nat_to_string (index + 1))),
           (''data'', VArr (map VNum seriesData)),
           (''backgroundColor'', VStr (getColor index)),
           (''borderColor'', VStr (replace_first ''0.8'' ''1'' (getColor index))),
           (''borderWidth'', num 1)]"

definition sample_labels :: "jsval" where
  "sample_labels = VArr (map VStr [''Sample A'', ''Sample B'', ''Sample C'', ''Sample D'', ''Sample E''])"

definition sample_values :: "jsval" where
  "sample_values = VArr (map num [30, 20, 25, 15, 10])"

text \<open>\<^verbatim>\<open>getSampleData(visualizationType)\<close>; \<open>dark\<close> says whether the cookie \<^verbatim>\<open>color_scheme\<close>
  is \<^verbatim>\<open>dark\<close>.\<close>

definition getSampleData :: "bool \<Rightarrow> jsval \<Rightarrow> jsval" where
  "getSampleData dark visualizationType =
     (if visualizationType = VStr ''pie'' then
        VObj [(''labels'', sample_labels),
              (''datasets'', VArr [VObj [
                 (''label'', VStr ''Sample Data''),
                 (''data'', sample_values),
                 (''backgroundColor'', VArr (map VStr
                    [''rgba(255, 99, 132, 0.8)'', ''rgba(54, 162, 235, 0.8)'',
                     ''rgba(255, 206, 86, 0.8)'', ''rgba(75, 192, 192, 0.8)'',
                     ''rgba(153, 102, 255, 0.8)''])),
                 (''borderWidth'', num 1),
                 (''borderColor'', VStr (if dark then ''#222'' else ''#fff''))]])]
      else
        VObj [(''labels'', sample_labels),
              (''datasets'', VArr [VObj [
                 (''label'', VStr ''Sample Dataset''),
                 (''data'', sample_values),
                 (''backgroundColor'', VStr ''rgba(75, 192, 192, 0.2)''),
                 (''borderColor'', VStr ''rgba(75, 192, 192, 1)''),
                 (''borderWidth'', num 1),
                 (''fill'', if visualizationType = VStr ''line'' then VBool False else VUndefined),
                 (''tension'', if visualizationType = VStr ''line'' then VNum (Fin (1 / 10))
                               else VUndefined)]])])"

subsection \<open>Locating the records\<close>

text \<open>
  Both field-selection rules start with the same block: in a multi-model payload the
  records of the first model that has some, the payload's own \<^verbatim>\<open>records\<close> otherwise, and the
  empty array when neither is there.
\<close>

definition has_records :: "jsval \<Rightarrow> bool throws" where
  "has_records model = do {
     rs \<leftarrow> get model ''records'';
     if truthy rs then do { l \<leftarrow> get rs ''length''; Some (gt_zero l) } else Some False
   }"

definition find_records :: "jsval \<Rightarrow> jsval throws" where
  "find_records searchResults = do {
     mm \<leftarrow> get searchResults ''multi_model'';
     res \<leftarrow> get searchResults ''results'';
     if truthy mm \<and> truthy res then do {
       models \<leftarrow> as_array res;
       modelWithRecords \<leftarrow> findM has_records models;
       (case modelWithRecords of
          None \<Rightarrow> Some (VArr [])
        | Some model \<Rightarrow> do {
            rs \<leftarrow> get model ''records'';
            Some (if truthy model \<and> truthy rs then rs else VArr [])
          })
     } else do {
       rs \<leftarrow> get searchResults ''records'';
       Some (if truthy rs then rs else VArr [])
     }
   }"

text \<open>\<^verbatim>\<open>records.length > 0\<close>\<close>

definition nonempty :: "jsval \<Rightarrow> bool throws" where
  "nonempty records = do { l \<leftarrow> get records ''length''; Some (gt_zero l) }"

subsection \<open>Stacked charts\<close>

text \<open>
  The two stacked branches share their shape and differ in the value of a cell, which is
  the parameter \<open>cell\<close>: it receives the records that match a dimension value and a series
  value, and is called only when there are some.
\<close>

definition tagged :: "jsval list \<Rightarrow> jsref list" where
  "tagged vs = zip [0 ..< length vs] vs"

definition dimension_label :: "jsval \<Rightarrow> jsval" where
  "dimension_label v = (if v \<noteq> VUndefined \<and> v \<noteq> VNull then VStr (ToString v) else VStr [])"

definition matching :: "jsval list \<Rightarrow> jsref list \<Rightarrow> jsref list \<Rightarrow> jsref \<Rightarrow> jsref \<Rightarrow> jsval list" where
  "matching records ds ss dimValue seriesValue =
     map fst (filter (\<lambda>(r, d, s). loose_eq d dimValue \<and> loose_eq s seriesValue)
                     (zip records (zip ds ss)))"

definition stacked_chart ::
    "(jsval list \<Rightarrow> jsnum throws) \<Rightarrow> jsval list \<Rightarrow> jsval \<Rightarrow> jsval \<Rightarrow> jsval throws" where
  "stacked_chart cell records dimensionField seriesField = do {
     dvs \<leftarrow> mapM (\<lambda>r. get_at r dimensionField) records;
     svs \<leftarrow> mapM (\<lambda>r. get_at r seriesField) records;
     let dimensionValues = Set_values (tagged dvs);
     let seriesValues = Set_values (tagged svs);
     let labels = map (\<lambda>v. dimension_label (snd v)) dimensionValues;
     datasets \<leftarrow> mapM (\<lambda>(index, seriesValue). do {
         seriesData \<leftarrow> mapM (\<lambda>dimValue.
             (let matchingRecords = matching records (tagged dvs) (tagged svs) dimValue seriesValue
              in if matchingRecords \<noteq> [] then cell matchingRecords else Some (Fin 0)))
           dimensionValues;
         Some (series_dataset index (snd seriesValue) seriesData)
       }) (enumerate 0 seriesValues);
     Some (chart (VArr labels) datasets)
   }"

subsection \<open>Grouped charts and date buckets\<close>

text \<open>
  \<^verbatim>\<open>groupedRecords\<close>, \<^verbatim>\<open>dateCounts\<close> and \<^verbatim>\<open>labelCounts\<close> are objects created with \<^verbatim>\<open>{}\<close>
  and used as dictionaries whose keys are values of the payload. They are lists of own
  properties in insertion order, read back with \<open>own_keys\<close>. Such an object inherits the
  members of \<^verbatim>\<open>Object.prototype\<close>, and a key that is not an own property but names one of
  them reads as that member: a function, or the prototype itself for \<^verbatim>\<open>__proto__\<close>.
\<close>

definition inherited :: "string \<Rightarrow> bool" where
  "inherited k = (k \<in> set [''constructor'', ''hasOwnProperty'', ''isPrototypeOf'',
                            ''propertyIsEnumerable'', ''toLocaleString'', ''toString'',
                            ''valueOf'', ''__proto__'', ''__defineGetter__'',
                            ''__defineSetter__'', ''__lookupGetter__'', ''__lookupSetter__''])"

text \<open>
  \<^verbatim>\<open>if (!groupedRecords[key]) { groupedRecords[key] = []; } groupedRecords[key].push(record)\<close>.
  Under an inherited name the first read is truthy, nothing is stored, and the member has
  no \<^verbatim>\<open>push\<close>: the call raises a TypeError.
\<close>

definition push_group ::
    "string \<Rightarrow> jsval \<Rightarrow> (string \<times> jsval list) list \<Rightarrow> (string \<times> jsval list) list throws" where
  "push_group key record groups =
     (case map_of groups key of
        Some _ \<Rightarrow> Some (map (\<lambda>(k, rs). if k = key then (k, rs @ [record]) else (k, rs)) groups)
      | None \<Rightarrow> if inherited key then None else Some (groups @ [(key, [record])]))"

text \<open>
  \<^verbatim>\<open>if (!counts[key]) { counts[key] = 0; } counts[key]++\<close>. An own count that is falsy
  (\<^verbatim>\<open>NaN\<close>) restarts from 0. Under an inherited name that is not yet an own property the
  first read is truthy and the increment converts the member to a number, which is
  \<^verbatim>\<open>NaN\<close>; the assignment stores it as an own property, except for \<^verbatim>\<open>__proto__\<close>, whose
  setter ignores a value that is not an object.
\<close>

definition bump :: "string \<Rightarrow> (string \<times> jsnum) list \<Rightarrow> (string \<times> jsnum) list" where
  "bump key counts =
     (case map_of counts key of
        Some _ \<Rightarrow>
          map (\<lambda>(k, n). if k = key then (k, js_add (or_zero n) (Fin 1)) else (k, n)) counts
      | None \<Rightarrow>
          if key = ''__proto__'' then counts
          else if inherited key then counts @ [(key, NaN)]
          else counts @ [(key, Fin 1)])"

definition lookup_group :: "(string \<times> jsval list) list \<Rightarrow> string \<Rightarrow> jsval list" where
  "lookup_group groups key = (case map_of groups key of Some rs \<Rightarrow> rs | None \<Rightarrow> [])"

text \<open>\<^verbatim>\<open>counts[key]\<close> for a key that \<^verbatim>\<open>Object.keys(counts)\<close> returned.\<close>

definition lookup_count :: "(string \<times> jsnum) list \<Rightarrow> string \<Rightarrow> jsval" where
  "lookup_count counts key = (case map_of counts key of Some n \<Rightarrow> VNum n | None \<Rightarrow> VUndefined)"

definition group_key :: "jsval \<Rightarrow> string" where
  "group_key v = (if v \<noteq> VUndefined \<and> v \<noteq> VNull then ToString v else [])"

text \<open>The regular branch of the chart-definition rule: records grouped by the string of
  their dimension value, one aggregated value per group.\<close>

definition grouped_chart :: "jsval \<Rightarrow> jsval list \<Rightarrow> jsval \<Rightarrow> jsval \<Rightarrow> jsval \<Rightarrow> jsval throws" where
  "grouped_chart visualizationType records dimensionField measureField aggregationType = do {
     groupedRecords \<leftarrow> foldM (\<lambda>g record. do {
         dimensionValue \<leftarrow> get_at record dimensionField;
         push_group (group_key dimensionValue) record g
       }) [] records;
     let labels = own_keys groupedRecords;
     values \<leftarrow> mapM (\<lambda>label.
         aggregateValues (lookup_group groupedRecords label) measureField aggregationType) labels;
     m \<leftarrow> as_string measureField;
     Some (chart (VArr (map VStr labels))
       [single_dataset visualizationType (VStr (title_case m)) (length labels)
          (VArr (map VNum values))])
   }"

text \<open>The date of a record, reduced to its date part; a \<^verbatim>\<open>Date\<close> goes through
  \<^verbatim>\<open>toISOString\<close>, which raises on an invalid date.\<close>

definition date_key :: "jsval \<Rightarrow> jsval throws" where
  "date_key dateValue = (case dateValue of
      VDate i s t \<Rightarrow> (case i of None \<Rightarrow> None | Some x \<Rightarrow> Some (VStr (split_first CHR ''T'' x)))
    | VStr s \<Rightarrow> Some (VStr (date_part s))
    | _ \<Rightarrow> if is_object dateValue then Some (VStr (date_part (ToString dateValue)))
           else Some dateValue)"

definition count_dates :: "jsval list \<Rightarrow> string \<Rightarrow> (string \<times> jsnum) list throws" where
  "count_dates records dateField =
     foldM (\<lambda>dateCounts record. do {
         v \<leftarrow> get record dateField;
         dateValue \<leftarrow> date_key v;
         Some (if truthy dateValue then bump (ToString dateValue) dateCounts else dateCounts)
       }) [] records"

definition count_labels :: "jsval list \<Rightarrow> string \<Rightarrow> (string \<times> jsnum) list throws" where
  "count_labels records labelField =
     foldM (\<lambda>labelCounts record. do {
         labelValue \<leftarrow> get record labelField;
         Some (if truthy labelValue then bump (ToString labelValue) labelCounts else labelCounts)
       }) [] records"

text \<open>The chart of counts per date, labels sorted; \<open>None\<close> inside when there is no date.\<close>

definition date_chart :: "jsval \<Rightarrow> jsval \<Rightarrow> (string \<times> jsnum) list \<Rightarrow> jsval option" where
  "date_chart visualizationType label dateCounts =
     (let dates = sort (own_keys dateCounts);
          counts = map (lookup_count dateCounts) dates
      in if dates \<noteq> [] then
           Some (chart (VArr (map VStr dates))
                   [single_dataset visualizationType label (length dates) (VArr counts)])
         else None)"

text \<open>The test for a date in the first record:
  \<^verbatim>\<open>/^\d{4}-\d{2}-\d{2}/.test(String(value)) || value instanceof Date ||
  (typeof value === 'object' && value !== null && typeof value.getFullYear === 'function')\<close>\<close>

definition date_like :: "jsval \<Rightarrow> bool" where
  "date_like v = (iso_date_prefix (ToString v) \<or> instanceof_Date v
                  \<or> (is_object v \<and> has_getFullYear v))"

text \<open>A field name found by a loop, \<open>None\<close> for \<^verbatim>\<open>null\<close>, tested by \<^verbatim>\<open>if (field)\<close>:
  null and the empty name are falsy.\<close>

definition found :: "string option \<Rightarrow> bool" where
  "found f = (case f of None \<Rightarrow> False | Some k \<Rightarrow> k \<noteq> [])"

text \<open>\<^verbatim>\<open>if (field) { yes } else { no }\<close>, where \<open>yes\<close> uses the name.\<close>

definition when_found :: "string option \<Rightarrow> (string \<Rightarrow> 'a) \<Rightarrow> 'a \<Rightarrow> 'a" where
  "when_found f yes no = (case f of None \<Rightarrow> no | Some k \<Rightarrow> if k \<noteq> [] then yes k else no)"

subsection \<open>The rules\<close>

text \<open>A rule returns \<open>Some (Some c)\<close> when it returns the chart \<open>c\<close>, \<open>Some None\<close> when
  control falls through to the next rule, and \<open>None\<close> when it throws.\<close>

definition is_stacked :: "jsval \<Rightarrow> jsval \<Rightarrow> jsval \<Rightarrow> bool throws" where
  "is_stacked visualizationType config seriesField =
     (if visualizationType = VStr ''bar'' then
        do { st \<leftarrow> get config ''stacked''; Some (truthy st \<and> truthy seriesField) }
      else Some False)"

definition rule_chartDefinition :: "jsval \<Rightarrow> jsval \<Rightarrow> jsval \<Rightarrow> jsval option throws" where
  "rule_chartDefinition visualizationType config searchResults = do {
     chartDefinition \<leftarrow> get searchResults ''chartDefinition'';
     if truthy chartDefinition then do {
       dimensionField \<leftarrow> get chartDefinition ''dimensionField'';
       measureField \<leftarrow> get chartDefinition ''measureField'';
       a \<leftarrow> get chartDefinition ''aggregationType'';
       let aggregationType = js_or a (VStr ''count'');
       seriesField \<leftarrow> get chartDefinition ''seriesField'';
       records \<leftarrow> find_records searchResults;
       ne \<leftarrow> nonempty records;
       if ne \<and> truthy dimensionField then do {
         stacked \<leftarrow> is_stacked visualizationType config seriesField;
         rs \<leftarrow> as_array records;
         c \<leftarrow> (if stacked then
                 stacked_chart (\<lambda>m. aggregateValues m measureField aggregationType)
                   rs dimensionField seriesField
               else grouped_chart visualizationType rs dimensionField measureField aggregationType);
         Some (Some c)
       } else Some None
     } else Some None
   }"

text \<open>\<^verbatim>\<open>typeof value === 'number' ? value : parseFloat(value) || 0\<close>\<close>

definition number_or_parse :: "jsval \<Rightarrow> jsnum" where
  "number_or_parse v = (case v of VNum n \<Rightarrow> n | _ \<Rightarrow> or_zero (parseFloat v))"

text \<open>The cell of the legacy stacked chart:
  \<^verbatim>\<open>matchingRecords.reduce((sum, record) => sum + numValue, 0)\<close>\<close>

definition legacy_sum :: "jsval \<Rightarrow> jsval list \<Rightarrow> jsnum throws" where
  "legacy_sum measureField matchingRecords =
     foldM (\<lambda>sum record. do {
         v \<leftarrow> get_at record measureField;
         Some (js_add sum (number_or_parse v))
       }) (Fin 0) matchingRecords"

text \<open>\<^verbatim>\<open>value !== undefined ? String(value) : ''\<close>\<close>

definition record_label :: "jsval \<Rightarrow> jsval" where
  "record_label v = VStr (if v \<noteq> VUndefined then ToString v else [])"

text \<open>The regular branch of the legacy rule: one label and one value per record.\<close>

definition legacy_chart :: "jsval \<Rightarrow> jsval list \<Rightarrow> jsval \<Rightarrow> jsval \<Rightarrow> jsval throws" where
  "legacy_chart visualizationType records dimensionField measureField = do {
     labels \<leftarrow> mapM (\<lambda>record. do { v \<leftarrow> get_at record dimensionField; Some (record_label v) })
                records;
     values \<leftarrow> mapM (\<lambda>record. do { v \<leftarrow> get_at record measureField; Some (VNum (coerce_measure v)) })
                records;
     m \<leftarrow> as_string measureField;
     Some (chart (VArr labels)
       [single_dataset visualizationType (VStr (title_case m)) (length labels) (VArr values)])
   }"

definition rule_config :: "jsval \<Rightarrow> jsval \<Rightarrow> jsval \<Rightarrow> jsval option throws" where
  "rule_config visualizationType config searchResults = do {
     chartDefinition \<leftarrow> get searchResults ''chartDefinition'';
     if truthy chartDefinition then Some None
     else do {
       dimensionField \<leftarrow> get config ''dimensionField'';
       measureField \<leftarrow> get config ''measureField'';
       if truthy dimensionField \<and> truthy measureField then do {
         records \<leftarrow> find_records searchResults;
         ne \<leftarrow> nonempty records;
         if ne then do {
           seriesField \<leftarrow> get config ''seriesField'';
           stacked \<leftarrow> is_stacked visualizationType config seriesField;
           rs \<leftarrow> as_array records;
           c \<leftarrow> (if stacked then
                   stacked_chart (legacy_sum measureField) rs dimensionField seriesField
                 else legacy_chart visualizationType rs dimensionField measureField);
           Some (Some c)
         } else Some None
       } else Some None
     }
   }"

definition rule_aggregation :: "jsval \<Rightarrow> jsval \<Rightarrow> jsval option throws" where
  "rule_aggregation visualizationType searchResults = do {
     a \<leftarrow> get searchResults ''aggregation'';
     if a = VBool True then do {
       dimensionField \<leftarrow> get searchResults ''dimension'';
       measureField \<leftarrow> get searchResults ''measure'';
       records \<leftarrow> get searchResults ''records'';
       ne \<leftarrow> (if truthy dimensionField \<and> truthy measureField \<and> truthy records
              then nonempty records else Some False);
       if ne then do {
         rs \<leftarrow> as_array records;
         labels \<leftarrow> mapM (\<lambda>record. do { v \<leftarrow> get_at record dimensionField; Some (record_label v) }) rs;
         values \<leftarrow> mapM (\<lambda>record. do { v \<leftarrow> get_at record measureField; Some (js_or v (num 0)) }) rs;
         fd \<leftarrow> get searchResults ''field_descriptions'';
         d \<leftarrow> (if truthy fd then get_at fd dimensionField else Some VUndefined);
         let datasetLabel = (if truthy fd \<and> truthy d then d else measureField);
         Some (Some (chart (VArr labels)
           [single_dataset visualizationType datasetLabel (length labels) (VArr values)]))
       } else Some None
     } else Some None
   }"

text \<open>The multi-model rule, first part: a model that carries \<^verbatim>\<open>_dateAggregation\<close>.\<close>

definition preprocessed_chart :: "jsval \<Rightarrow> jsval \<Rightarrow> jsval option throws" where
  "preprocessed_chart visualizationType preprocessedModel = do {
     aggregation \<leftarrow> get preprocessedModel ''_dateAggregation'';
     if truthy preprocessedModel \<and> truthy aggregation then do {
       dates \<leftarrow> get aggregation ''dates'';
       counts \<leftarrow> get aggregation ''counts'';
       ne \<leftarrow> nonempty dates;
       if ne then do {
         l \<leftarrow> get preprocessedModel ''model_label'';
         n \<leftarrow> (if visualizationType = VStr ''pie''
                then do { ds \<leftarrow> as_array dates; Some (length ds) } else Some 0);
         Some (Some (chart dates
           [single_dataset visualizationType (VStr (ToString l @ '' by Date'')) n counts]))
       } else Some None
     } else Some None
   }"

text \<open>\<^verbatim>\<open>Array.isArray(a.records) ? a.records.length : 0\<close>\<close>

definition record_count :: "jsval \<Rightarrow> int" where
  "record_count m = (case get m ''records'' of Some (VArr rs) \<Rightarrow> int (length rs) | _ \<Rightarrow> 0)"

text \<open>\<^verbatim>\<open>primaryModelResult.model_label || primaryModelResult.model || ''\<close>\<close>

definition model_name :: "jsval \<Rightarrow> jsval throws" where
  "model_name m = do {
     l \<leftarrow> get m ''model_label'';
     mo \<leftarrow> get m ''model'';
     Some (js_or (js_or l mo) (VStr []))
   }"

text \<open>\<^verbatim>\<open>modelName.includes('log')\<close>: a method of strings and of arrays only.\<close>

definition includes_log :: "jsval \<Rightarrow> bool throws" where
  "includes_log v = (case v of
      VStr s \<Rightarrow> Some (includes_str ''log'' s)
    | VArr xs \<Rightarrow> Some (VStr ''log'' \<in> set xs)
    | _ \<Rightarrow> None)"

text \<open>The multi-model rule, second part: the model with the most records and the date
  field of its first record.\<close>

definition primary_date_chart :: "jsval \<Rightarrow> jsval \<Rightarrow> jsval \<Rightarrow> string \<Rightarrow> jsval option throws" where
  "primary_date_chart visualizationType primaryModelResult records dateField = do {
     rs \<leftarrow> as_array records;
     dateCounts \<leftarrow> count_dates rs dateField;
     if sort (own_keys dateCounts) \<noteq> [] then do {
       modelName \<leftarrow> model_name primaryModelResult;
       b \<leftarrow> includes_log modelName;
       let datasetLabel = (if b then ''User Login Count'' else ToString modelName @ '' Count'');
       Some (date_chart visualizationType (VStr datasetLabel) dateCounts)
     } else Some None
   }"

definition primary_label_chart :: "jsval \<Rightarrow> jsval \<Rightarrow> jsval \<Rightarrow> string \<Rightarrow> jsval option throws" where
  "primary_label_chart visualizationType primaryModelResult records labelField = do {
     rs \<leftarrow> as_array records;
     labelCounts \<leftarrow> count_labels rs labelField;
     let labels = own_keys labelCounts;
     let counts = map (lookup_count labelCounts) labels;
     if labels \<noteq> [] then do {
       modelName \<leftarrow> model_name primaryModelResult;
       Some (Some (chart (VArr (map VStr labels))
         [single_dataset visualizationType (VStr (ToString modelName @ '' by '' @ labelField))
            (length labels) (VArr counts)]))
     } else Some None
   }"

definition primary_chart :: "bool \<Rightarrow> jsval \<Rightarrow> jsval \<Rightarrow> jsval option throws" where
  "primary_chart dark visualizationType primaryModelResult = do {
     records \<leftarrow> get primaryModelResult ''records'';
     l \<leftarrow> (if truthy records then get records ''length'' else Some VUndefined);
     if \<not> truthy primaryModelResult \<or> \<not> truthy records \<or> \<not> truthy l then
       Some (Some (getSampleData dark visualizationType))
     else do {
       first_record \<leftarrow> get records ''0'';
       let dateField = find (\<lambda>field. \<not> technical field \<and> date_like (read_prop first_record field))
                            (enum_keys first_record);
       when_found dateField
         (primary_date_chart visualizationType primaryModelResult records)
         (let labelField = find (\<lambda>field. \<not> technical field
                                    \<and> is_string (read_prop first_record field))
                                (enum_keys first_record)
          in when_found labelField
               (primary_label_chart visualizationType primaryModelResult records)
               (Some None))
     }
   }"

definition rule_multi_model :: "bool \<Rightarrow> jsval \<Rightarrow> jsval \<Rightarrow> jsval option throws" where
  "rule_multi_model dark visualizationType searchResults = do {
     mm \<leftarrow> get searchResults ''multi_model'';
     res \<leftarrow> get searchResults ''results'';
     if mm = VBool True \<and> truthy res then
       (case res of
          VArr (m # ms) \<Rightarrow> do {
            preprocessedModel \<leftarrow>
              findM (\<lambda>model. do { a \<leftarrow> get model ''_dateAggregation''; Some (truthy a) }) (m # ms);
            pre \<leftarrow> (case preprocessedModel of
                      None \<Rightarrow> Some None
                    | Some model \<Rightarrow> preprocessed_chart visualizationType model);
            (case pre of
               Some c \<Rightarrow> Some (Some c)
             | None \<Rightarrow> do {
                 logged \<leftarrow> mapM (\<lambda>x. do { l \<leftarrow> get x ''model_label''; mo \<leftarrow> get x ''model'';
                                        Some (js_or l mo) }) (m # ms);
                 (case sort_key (\<lambda>x. - record_count x) (m # ms) of
                    [] \<Rightarrow> Some (Some (getSampleData dark visualizationType))
                  | primaryModelResult # _ \<Rightarrow>
                      primary_chart dark visualizationType primaryModelResult)
               })
          }
        | _ \<Rightarrow> Some (Some (getSampleData dark visualizationType)))
     else Some None
   }"

text \<open>The plain-records rule: a label field and a value field found in the first record.\<close>

definition label_capable :: "jsval \<Rightarrow> bool" where
  "label_capable v = (is_string v \<or> (is_object v \<and> (instanceof_Date v \<or> has_getFullYear v
                        \<or> iso_date_prefix (ToString v))))"

definition value_capable :: "jsval \<Rightarrow> bool" where
  "value_capable v = (is_number v \<or> \<not> isNaN (parseFloat v)
                      \<or> (case v of VArr (x # xs) \<Rightarrow> is_number x \<or> \<not> isNaN (parseFloat x)
                          | _ \<Rightarrow> False))"

definition pick_fields :: "jsval \<Rightarrow> string option \<times> string option" where
  "pick_fields first_record =
     foldl (\<lambda>(label_field, value_field) field.
         if technical field then (label_field, value_field)
         else (let v = read_prop first_record field
               in if label_field = None \<and> label_capable v then (Some field, value_field)
                  else if value_field = None \<and> value_capable v then (label_field, Some field)
                  else (label_field, value_field)))
       (None, None) (enum_keys first_record)"

text \<open>\<^verbatim>\<open>Array.isArray(val) && val.length > 0 ? parseFloat(val[0]) :
  (typeof val === 'number' ? val : parseFloat(val))\<close>\<close>

definition plain_value :: "jsval \<Rightarrow> jsnum" where
  "plain_value v = (case v of
      VArr (x # xs) \<Rightarrow> parseFloat x
    | VNum n \<Rightarrow> n
    | _ \<Rightarrow> parseFloat v)"

definition plain_chart :: "jsval \<Rightarrow> jsval \<Rightarrow> string \<Rightarrow> string \<Rightarrow> jsval option throws" where
  "plain_chart visualizationType records label_field value_field = do {
     rs \<leftarrow> as_array records;
     labels \<leftarrow> mapM (\<lambda>record. do { v \<leftarrow> get record label_field; Some (record_label v) }) rs;
     values \<leftarrow> mapM (\<lambda>record. do { v \<leftarrow> get record value_field; Some (VNum (plain_value v)) })
                rs;
     Some (Some (chart (VArr labels)
       [single_dataset visualizationType (VStr value_field) (length labels) (VArr values)]))
   }"

definition plain_date_chart :: "jsval \<Rightarrow> jsval \<Rightarrow> string \<Rightarrow> jsval option throws" where
  "plain_date_chart visualizationType records dateField = do {
     rs \<leftarrow> as_array records;
     dateCounts \<leftarrow> count_dates rs dateField;
     Some (date_chart visualizationType (VStr (''Count by '' @ dateField)) dateCounts)
   }"

definition rule_records :: "jsval \<Rightarrow> jsval \<Rightarrow> jsval option throws" where
  "rule_records visualizationType searchResults = do {
     records \<leftarrow> get searchResults ''records'';
     ne \<leftarrow> (if truthy records then nonempty records else Some False);
     if ne then do {
       first_record \<leftarrow> get records ''0'';
       let (label_field, value_field) = pick_fields first_record;
       let dateField = find (\<lambda>field. date_like (read_prop first_record field))
                            (enum_keys first_record);
       let by_date = (if \<not> found value_field
                      then when_found dateField (plain_date_chart visualizationType records)
                             (Some None)
                      else Some None);
       when_found label_field
         (\<lambda>l. when_found value_field (plain_chart visualizationType records l) by_date)
         by_date
     } else Some None
   }"

subsection \<open>\<^verbatim>\<open>getChartData\<close>\<close>

text \<open>
  The report is the component's prop. Its \<^verbatim>\<open>config\<close> and \<^verbatim>\<open>data\<close> may be JSON text;
  \<^verbatim>\<open>JSON.parse\<close> is the parameter \<open>parse\<close>, \<open>None\<close> where it raises a SyntaxError, which
  the code catches.
\<close>

record report =
  report_visualization_type :: jsval
  report_config :: jsval
  report_data :: jsval

definition parse_config :: "(string \<Rightarrow> jsval option) \<Rightarrow> jsval \<Rightarrow> jsval" where
  "parse_config parse c = (case c of
      VStr s \<Rightarrow> (if s = [] then VObj []
                 else (case parse s of Some v \<Rightarrow> v | None \<Rightarrow> VObj []))
    | _ \<Rightarrow> js_or c (VObj []))"

definition parse_data :: "(string \<Rightarrow> jsval option) \<Rightarrow> jsval \<Rightarrow> jsval" where
  "parse_data parse d = (case d of
      VStr s \<Rightarrow> (if s = [] then VStr []
                 else (case parse s of Some v \<Rightarrow> v | None \<Rightarrow> VNull))
    | _ \<Rightarrow> d)"

text \<open>The rules in their order: the first that returns a chart or throws decides.\<close>

definition or_else :: "jsval option throws \<Rightarrow> jsval throws \<Rightarrow> jsval throws" where
  "or_else r k = (case r of None \<Rightarrow> None | Some (Some c) \<Rightarrow> Some c | Some None \<Rightarrow> k)"

text \<open>\<^verbatim>\<open>reportData.graphData || reportData.data || reportData\<close>\<close>

definition search_results :: "jsval \<Rightarrow> jsval throws" where
  "search_results reportData = do {
     g \<leftarrow> get reportData ''graphData'';
     d \<leftarrow> get reportData ''data'';
     Some (js_or (js_or g d) reportData)
   }"

text \<open>\<^verbatim>\<open>searchResults.labels && searchResults.datasets\<close>\<close>

definition pass_through :: "jsval \<Rightarrow> bool throws" where
  "pass_through searchResults = do {
     l \<leftarrow> get searchResults ''labels'';
     ds \<leftarrow> get searchResults ''datasets'';
     Some (truthy l \<and> truthy ds)
   }"

definition apply_rules :: "bool \<Rightarrow> jsval \<Rightarrow> jsval \<Rightarrow> jsval \<Rightarrow> jsval throws" where
  "apply_rules dark visualizationType config searchResults =
     or_else (rule_chartDefinition visualizationType config searchResults)
    (or_else (rule_config visualizationType config searchResults)
    (or_else (rule_aggregation visualizationType searchResults)
    (or_else (rule_multi_model dark visualizationType searchResults)
    (or_else (rule_records visualizationType searchResults)
    (Some (getSampleData dark visualizationType))))))"

definition getChartData :: "(string \<Rightarrow> jsval option) \<Rightarrow> bool \<Rightarrow> report \<Rightarrow> jsval throws" where
  "getChartData parse dark r =
     (let visualizationType = report_visualization_type r;
          config = parse_config parse (report_config r);
          reportData = parse_data parse (report_data r)
      in if truthy reportData then do {
           searchResults \<leftarrow> search_results reportData;
           p \<leftarrow> pass_through searchResults;
           if p then Some searchResults
           else apply_rules dark visualizationType config searchResults
         }
         else Some (getSampleData dark visualizationType))"

section \<open>The report dialog\<close>

subsection \<open>The Field Inspector\<close>

record field_desc =
  field_name :: string
  field_type :: string
  field_label :: string

text \<open>The type \<^verbatim>\<open>_addFieldsFromRecord\<close> gives a value.\<close>

definition classify :: "jsval \<Rightarrow> string" where
  "classify v =
     (if typeof v = ''number'' then ''number''
      else if instanceof_Date v \<or> (case v of VStr s \<Rightarrow> iso_date_prefix s | _ \<Rightarrow> False)
      then ''date''
      else ''string'')"

text \<open>\<^verbatim>\<open>_addFieldsFromRecord(record, availableFields)\<close>; the array it pushes to is returned.\<close>

definition addFieldsFromRecord :: "jsval \<Rightarrow> field_desc list \<Rightarrow> field_desc list throws" where
  "addFieldsFromRecord record availableFields = do {
     entries \<leftarrow> Object_entries record;
     Some (foldl (\<lambda>fds (field, v).
         if technical field then fds
         else fds @ [\<lparr>field_name = field, field_type = classify v,
                         field_label = title_case field\<rparr>])
       availableFields entries)
   }"

text \<open>\<^verbatim>\<open>_extractAvailableFields()\<close>, on the value of \<^verbatim>\<open>this.props.searchResults || {}\<close>.\<close>

definition extractAvailableFields :: "jsval \<Rightarrow> field_desc list throws" where
  "extractAvailableFields searchResults = do {
     mm \<leftarrow> get searchResults ''multi_model'';
     res \<leftarrow> get searchResults ''results'';
     if truthy mm \<and> truthy res then do {
       models \<leftarrow> as_array res;
       modelWithRecords \<leftarrow> findM has_records models;
       (case modelWithRecords of
          None \<Rightarrow> Some []
        | Some model \<Rightarrow> do {
            rs \<leftarrow> get model ''records'';
            firstRecord \<leftarrow> get rs ''0'';
            if truthy model \<and> truthy firstRecord then addFieldsFromRecord firstRecord []
            else Some []
          })
     } else do {
       rs \<leftarrow> get searchResults ''records'';
       ne \<leftarrow> (if truthy rs then nonempty rs else Some False);
       if ne then do { firstRecord \<leftarrow> get rs ''0''; addFieldsFromRecord firstRecord [] }
       else Some []
     }
   }"

subsection \<open>Default selections\<close>

text \<open>A selection is a field name or \<^verbatim>\<open>null\<close>, which is \<open>None\<close>.\<close>

definition first_name :: "field_desc list \<Rightarrow> string option" where
  "first_name fds = (case fds of [] \<Rightarrow> None | f # _ \<Rightarrow> Some (field_name f))"

definition getDefaultDimensionField :: "field_desc list \<Rightarrow> string option" where
  "getDefaultDimensionField fds =
     (case find (\<lambda>f. field_type f = ''date'') fds of
        Some dateField \<Rightarrow> Some (field_name dateField)
      | None \<Rightarrow>
         (case find (\<lambda>f. field_type f = ''string'') fds of
            Some stringField \<Rightarrow> Some (field_name stringField)
          | None \<Rightarrow> first_name fds))"

definition getDefaultMeasureField :: "field_desc list \<Rightarrow> string option" where
  "getDefaultMeasureField fds =
     (case find (\<lambda>f. field_type f = ''number'') fds of
        Some numField \<Rightarrow> Some (field_name numField)
      | None \<Rightarrow>
         (let dimensionField = getDefaultDimensionField fds
          in (case find (\<lambda>f. Some (field_name f) \<noteq> dimensionField) fds of
                Some alternateField \<Rightarrow> Some (field_name alternateField)
              | None \<Rightarrow> first_name fds)))"

definition getDefaultSeriesField :: "field_desc list \<Rightarrow> string option" where
  "getDefaultSeriesField fds =
     (let dimensionField = getDefaultDimensionField fds;
          stringFields = filter (\<lambda>f. field_type f = ''string'') fds;
          fallback =
            (let measureField = getDefaultMeasureField fds
             in (case find (\<lambda>f. Some (field_name f) \<noteq> dimensionField
                                \<and> Some (field_name f) \<noteq> measureField) fds of
                   Some alternateField \<Rightarrow> Some (field_name alternateField)
                 | None \<Rightarrow> first_name fds))
      in (case stringFields of
            [] \<Rightarrow> fallback
          | [f] \<Rightarrow> if Some (field_name f) \<noteq> dimensionField then Some (field_name f)
                   else fallback
          | f # g # others \<Rightarrow>
              (case find (\<lambda>f. Some (field_name f) \<noteq> dimensionField) stringFields of
                 Some alternateField \<Rightarrow> Some (field_name alternateField)
               | None \<Rightarrow> fallback)))"

subsection \<open>Aggregation types\<close>

record aggregation_type =
  agg_id :: string
  agg_name :: string
  applicableToAll :: bool
  numericOnly :: bool

definition getAggregationTypes :: "aggregation_type list" where
  "getAggregationTypes =
     [\<lparr>agg_id = ''none'', agg_name = ''None'', applicableToAll = True, numericOnly = False\<rparr>,
      \<lparr>agg_id = ''count'', agg_name = ''Count'', applicableToAll = True, numericOnly = False\<rparr>,
      \<lparr>agg_id = ''sum'', agg_name = ''Sum'', applicableToAll = False, numericOnly = True\<rparr>,
      \<lparr>agg_id = ''average'', agg_name = ''Average'', applicableToAll = False, numericOnly = True\<rparr>,
      \<lparr>agg_id = ''min'', agg_name = ''Minimum'', applicableToAll = False, numericOnly = True\<rparr>,
      \<lparr>agg_id = ''max'', agg_name = ''Maximum'', applicableToAll = False, numericOnly = True\<rparr>]"

subsection \<open>The dialog state and its handlers\<close>

text \<open>
  The state of the dialog, as \<^verbatim>\<open>setup\<close> creates it. \<^verbatim>\<open>config\<close> is an object that the
  handlers replace or extend; it is kept as the list of its properties.
\<close>

record dialog_state =
  name :: string
  visualizationType :: string
  validationError :: "string option"
  availableFields :: "field_desc list"
  dimensionField :: "string option"
  measureField :: "string option"
  aggregationType :: string
  seriesField :: "string option"
  config :: "(string \<times> jsval) list"

definition selection :: "string option \<Rightarrow> jsval" where
  "selection f = (case f of None \<Rightarrow> VNull | Some k \<Rightarrow> VStr k)"


definition obj_get :: "(string \<times> jsval) list \<Rightarrow> string \<Rightarrow> jsval" where
  "obj_get kvs k = (case map_of kvs k of Some v \<Rightarrow> v | None \<Rightarrow> VUndefined)"

text \<open>\<^verbatim>\<open>o[k] = v\<close> on an object: an existing property keeps its place.\<close>

definition obj_set :: "(string \<times> jsval) list \<Rightarrow> string \<Rightarrow> jsval \<Rightarrow> (string \<times> jsval) list" where
  "obj_set kvs k v =
     (if map_of kvs k = None then kvs @ [(k, v)]
      else map (\<lambda>(k', v'). if k' = k then (k', v) else (k', v')) kvs)"

definition dialog_setup :: "string \<Rightarrow> field_desc list \<Rightarrow> dialog_state" where
  "dialog_setup queryText fds =
     \<lparr>name = take 50 queryText,
      visualizationType = ''bar'',
      validationError = None,
      availableFields = fds,
      dimensionField = getDefaultDimensionField fds,
      measureField = getDefaultMeasureField fds,
      aggregationType = ''none'',
      seriesField = getDefaultSeriesField fds,
      config = [(''stacked'', VBool False), (''cumulated'', VBool False)]\<rparr>"

text \<open>\<^verbatim>\<open>_getApplicableAggregationTypes()\<close>\<close>

definition is_numeric_field :: "field_desc list \<Rightarrow> string option \<Rightarrow> bool" where
  "is_numeric_field fds f =
     (case find (\<lambda>d. Some (field_name d) = f) fds of
        Some fieldObj \<Rightarrow> field_type fieldObj = ''number''
      | None \<Rightarrow> False)"

definition getApplicableAggregationTypes :: "dialog_state \<Rightarrow> aggregation_type list" where
  "getApplicableAggregationTypes s =
     (let isNumeric = is_numeric_field (availableFields s) (measureField s)
      in filter (\<lambda>t. applicableToAll t \<or> (isNumeric \<and> numericOnly t)) getAggregationTypes)"

text \<open>\<^verbatim>\<open>onVisualizationTypeChanged(ev)\<close>, with \<open>v\<close> for \<^verbatim>\<open>ev.target.value\<close>.\<close>

definition onVisualizationTypeChanged :: "string \<Rightarrow> dialog_state \<Rightarrow> dialog_state" where
  "onVisualizationTypeChanged v s =
     (let previousType = visualizationType s;
          s' = s\<lparr>visualizationType := v\<rparr>
      in if v = ''bar'' then
           s'\<lparr>config :=
                [(''stacked'', if previousType = ''bar'' then obj_get (config s) ''stacked''
                               else VBool False),
                 (''dimensionField'', selection (dimensionField s)),
                 (''measureField'', selection (measureField s)),
                 (''seriesField'', selection (seriesField s))]\<rparr>
         else if v = ''line'' then
           s'\<lparr>config :=
                [(''cumulated'', if previousType = ''line'' then obj_get (config s) ''cumulated''
                                 else VBool False),
                 (''dimensionField'', selection (dimensionField s)),
                 (''measureField'', selection (measureField s))]\<rparr>
         else if v = ''pie'' then
           s'\<lparr>config :=
                [(''dimensionField'', selection (dimensionField s)),
                 (''measureField'', selection (measureField s))]\<rparr>
         else s')"

definition onDimensionFieldChanged :: "string \<Rightarrow> dialog_state \<Rightarrow> dialog_state" where
  "onDimensionFieldChanged v s = s\<lparr>dimensionField := Some v\<rparr>"

text \<open>\<^verbatim>\<open>onMeasureFieldChanged(ev)\<close>\<close>

definition onMeasureFieldChanged :: "string \<Rightarrow> dialog_state \<Rightarrow> dialog_state" where
  "onMeasureFieldChanged v s =
     (let s' = s\<lparr>measureField := Some v\<rparr>;
          isNumeric = is_numeric_field (availableFields s') (Some v);
          currentAggType = aggregationType s';
          currentAggTypeObj = find (\<lambda>t. agg_id t = currentAggType) getAggregationTypes
      in if (case currentAggTypeObj of Some t \<Rightarrow> numericOnly t | None \<Rightarrow> False) \<and> \<not> isNumeric
         then s'\<lparr>aggregationType := ''count''\<rparr>
         else s')"

definition onAggregationTypeChanged :: "string \<Rightarrow> dialog_state \<Rightarrow> dialog_state" where
  "onAggregationTypeChanged v s = s\<lparr>aggregationType := v\<rparr>"

definition onSeriesFieldChanged :: "string \<Rightarrow> dialog_state \<Rightarrow> dialog_state" where
  "onSeriesFieldChanged v s = s\<lparr>seriesField := Some v\<rparr>"

subsection \<open>Validation and confirmation\<close>

text \<open>\<^verbatim>\<open>this.state.visualizationType === 'bar' && this.state.config.stacked\<close>\<close>

definition stacked_bar :: "dialog_state \<Rightarrow> bool" where
  "stacked_bar s = (visualizationType s = ''bar'' \<and> truthy (obj_get (config s) ''stacked''))"




text \<open>The chart definition that \<^verbatim>\<open>onConfirm\<close> assembles from the state.\<close>

definition chartDefinition :: "dialog_state \<Rightarrow> jsval" where
  "chartDefinition s =
     VObj [(''dimensionField'', selection (dimensionField s)),
           (''measureField'', selection (measureField s)),
           (''aggregationType'', VStr (aggregationType s)),
           (''seriesField'', if stacked_bar s then selection (seriesField s) else VNull),
           (''fieldTypes'',
              VObj (foldl (\<lambda>acc field. obj_set acc (field_name field) (VStr (field_type field)))
                      [] (availableFields s)))]"


section \<open>Example payloads\<close>

text \<open>A report whose data and config are objects, not JSON text.\<close>

definition example_report :: "string \<Rightarrow> jsval \<Rightarrow> jsval \<Rightarrow> report" where
  "example_report vt c d =
     \<lparr>report_visualization_type = VStr vt, report_config = c, report_data = d\<rparr>"

text \<open>Two records with the field \<^verbatim>\<open>a\<close>: the number 10 and the text \<^verbatim>\<open>abc\<close>.\<close>

definition records_10_abc :: "jsval list" where
  "records_10_abc = [VObj [(''a'', VNum (Fin 10))], VObj [(''a'', VStr ''abc'')]]"

text \<open>Field descriptors: a date, a text and a number; and a single text field.\<close>

definition three_fields :: "field_desc list" where
  "three_fields = [\<lparr>field_name = ''day'', field_type = ''date'', field_label = ''Day''\<rparr>,
                   \<lparr>field_name = ''city'', field_type = ''string'', field_label = ''City''\<rparr>,
                   \<lparr>field_name = ''qty'', field_type = ''number'', field_label = ''Qty''\<rparr>]"

definition one_text_field :: "field_desc list" where
  "one_text_field = [\<lparr>field_name = ''x'', field_type = ''string'', field_label = ''X''\<rparr>]"

text \<open>A dialog state on these fields: a stacked bar chart that sums.\<close>

definition example_state :: dialog_state where
  "example_state = (dialog_setup ''sales by day'' three_fields)
      \<lparr>aggregationType := ''sum'',
       config := [(''stacked'', VBool True), (''cumulated'', VBool False)]\<rparr>"

text \<open>A sequence of changes of the visualization type, the first in the list first.\<close>

definition changeTypes :: "string list \<Rightarrow> dialog_state \<Rightarrow> dialog_state" where
  "changeTypes vs s = foldl (\<lambda>s v. onVisualizationTypeChanged v s) s vs"


text \<open>
  The report \<open>r\<close> gets past the pass-through test: its data is truthy after parsing,
  \<open>sr\<close> is the value the rules work on, and \<open>vt\<close> and \<open>cfg\<close> are its visualization
  type and its parsed config.
\<close>

definition reaches_rules :: "(string \<Rightarrow> jsval option) \<Rightarrow> report \<Rightarrow> jsval \<Rightarrow> jsval \<Rightarrow> jsval \<Rightarrow> bool" where
  "reaches_rules parse r vt cfg sr =
     (report_visualization_type r = vt
      \<and> parse_config parse (report_config r) = cfg
      \<and> truthy (parse_data parse (report_data r))
      \<and> search_results (parse_data parse (report_data r)) = Some sr
      \<and> pass_through sr = Some False)"

text \<open>Three payloads: a multi-model payload whose date aggregation has no dates, a chart
  definition without a measure field, and an object with no recognised key.\<close>

definition payload_without_dates :: jsval where
  "payload_without_dates =
     VObj [(''multi_model'', VBool True),
           (''results'', VArr [VObj [(''_dateAggregation'', VObj [])]])]"

definition payload_without_measure :: jsval where
  "payload_without_measure =
     VObj [(''records'', VArr [VObj [(''d'', VStr ''a'')]]),
           (''chartDefinition'', VObj [(''dimensionField'', VStr ''d'')])]"

definition payload_foo_bar :: jsval where
  "payload_foo_bar = VObj [(''foo'', VStr ''bar'')]"

text \<open>
  The values of a field over the records, each with the number of its record, and what it
  means for a list of such values to be free of repetitions in the sense of \<^verbatim>\<open>Set\<close>.
\<close>

definition field_values :: "jsval list \<Rightarrow> jsval \<Rightarrow> jsref list" where
  "field_values records f = tagged (map (\<lambda>r. read_prop r (ToString f)) records)"

fun svz_distinct :: "jsref list \<Rightarrow> bool" where
  "svz_distinct [] = True"
| "svz_distinct (x # xs) = (\<not> list_ex (same_value_zero x) xs \<and> svz_distinct xs)"

text \<open>
  Scenario B: regions A and B, products X and Y, no record for region B with product Y.
  The chart definition counts; the legacy config names the same fields.
\<close>

definition scenario_B :: "jsval list" where
  "scenario_B =
     [VObj [(''region'', VStr ''A''), (''product'', VStr ''X''), (''qty'', VNum (Fin 4))],
      VObj [(''region'', VStr ''A''), (''product'', VStr ''Y''), (''qty'', VNum (Fin 1))],
      VObj [(''region'', VStr ''B''), (''product'', VStr ''X''), (''qty'', VNum (Fin 2))],
      VObj [(''region'', VStr ''A''), (''product'', VStr ''X''), (''qty'', VNum (Fin 3))]]"

definition scenario_B_definition :: jsval where
  "scenario_B_definition =
     VObj [(''dimensionField'', VStr ''region''), (''measureField'', VStr ''qty''),
           (''aggregationType'', VStr ''count''), (''seriesField'', VStr ''product'')]"

definition scenario_B_payload :: jsval where
  "scenario_B_payload =
     VObj [(''records'', VArr scenario_B), (''chartDefinition'', scenario_B_definition)]"

text \<open>
  A stacked bar chart that averages: two records of region A and product X, the quantity
  of the second being a text that is no number.
\<close>

definition stacked_average_payload :: jsval where
  "stacked_average_payload =
     VObj [(''records'',
              VArr [VObj [(''region'', VStr ''A''), (''product'', VStr ''X''),
                          (''qty'', VNum (Fin 10))],
                    VObj [(''region'', VStr ''A''), (''product'', VStr ''X''),
                          (''qty'', VStr ''abc'')]]),
           (''chartDefinition'',
              VObj [(''dimensionField'', VStr ''region''), (''measureField'', VStr ''qty''),
                    (''aggregationType'', VStr ''average''), (''seriesField'', VStr ''product'')])]"





text \<open>
  The bucket of a date value in the date rules: the string its date part is counted under,
  \<open>None\<close> when the value is skipped (or when reading it throws); and the buckets of the
  records that have one, in the order of the records.
\<close>

definition bucket :: "jsval \<Rightarrow> string option" where
  "bucket v = (case date_key v of
      Some dateValue \<Rightarrow> if truthy dateValue then Some (ToString dateValue) else None
    | None \<Rightarrow> None)"

definition buckets :: "jsval list \<Rightarrow> string \<Rightarrow> string list" where
  "buckets records dateField = List.map_filter (\<lambda>x. bucket (read_prop x dateField)) records"

text \<open>
  A multi-model payload after the one of the component's test suite: a model of users
  with one record and a model of logins with three, whose \<^verbatim>\<open>create_date\<close> is an ISO
  string with a time of day. The second payload has the login model alone, without a
  label.
\<close>

definition login_records :: "jsval list" where
  "login_records =
     [VObj [(''id'', VNum (Fin 1)), (''create_date'', VStr ''2025-03-15 10:00:00''),
            (''create_uid'', VArr [VNum (Fin 1), VStr ''Admin'']),
            (''user_info'', VObj [(''id'', VNum (Fin 1)), (''name'', VStr ''Admin'')])],
      VObj [(''id'', VNum (Fin 2)), (''create_date'', VStr ''2025-03-15 11:30:00''),
            (''create_uid'', VArr [VNum (Fin 2), VStr ''Demo User'']),
            (''user_info'', VObj [(''id'', VNum (Fin 2)), (''name'', VStr ''Demo User'')])],
      VObj [(''id'', VNum (Fin 3)), (''create_date'', VStr ''2025-03-14T08:15:00''),
            (''create_uid'', VArr [VNum (Fin 1), VStr ''Admin''])]]"

definition login_models :: "jsval list" where
  "login_models =
     [VObj [(''model'', VStr ''res.users''), (''model_label'', VStr ''Users''),
            (''records'', VArr [VObj [(''id'', VNum (Fin 1)), (''name'', VStr ''Admin'')]])],
      VObj [(''model'', VStr ''res.users.log''), (''model_label'', VStr ''User Logs''),
            (''records'', VArr login_records)]]"

definition login_payload :: jsval where
  "login_payload = VObj [(''multi_model'', VBool True), (''total_count'', VNum (Fin 4)),
                         (''results'', VArr login_models)]"

definition log_payload :: jsval where
  "log_payload = VObj [(''multi_model'', VBool True),
                       (''results'', VArr [VObj [(''model'', VStr ''res.users.log''),
                                                 (''records'', VArr login_records)]])]"

section \<open>The Aggregator: average\<close>

text \<open>
  C1. The claim: \<^verbatim>\<open>average\<close> is the sum of the values that parse, divided by the number
  of values that parse. The code coerces every value with \<^verbatim>\<open>parseFloat(value) || 0\<close>
  before it filters with \<^verbatim>\<open>!isNaN\<close>, so a value that does not parse has become 0 and is
  never discarded. On the records \<^verbatim>\<open>[{a: 10}, {a: "abc"}]\<close> the text \<^verbatim>\<open>abc\<close> does not
  parse, one value parses and the claim gives \<open>10 / 1 = 10\<close>; the code returns
  \<open>(10 + 0) / 2 = 5\<close>.
\<close>

theorem C1_average_keeps_unparseable:
  "parseFloat (VStr ''abc'') = NaN
   \<and> coerce_measure (VStr ''abc'') = Fin 0
   \<and> aggregateValues records_10_abc (VStr ''a'') (VStr ''average'') = Some (Fin 5)"
  by code_simp

section \<open>The Field Inspector: the default measure\<close>

text \<open>
  C4. The claim: the default measure is the first numeric field, else the first field
  whose name differs from the default dimension, else none. The code has one more
  fallback: \<^verbatim>\<open>alternateField ? alternateField.name : (fields.length > 0 ? fields[0].name :
  null)\<close>. On a list with the single text field \<^verbatim>\<open>x\<close> the dimension is \<^verbatim>\<open>x\<close>, no other
  field exists, and the measure is \<^verbatim>\<open>x\<close> again, not none.
\<close>

theorem C4_counterexample:
  "getDefaultDimensionField one_text_field = Some ''x''
   \<and> getDefaultMeasureField one_text_field = Some ''x''"
  by code_simp

text \<open>
  C4, as amended: the default measure is the first numeric field; when there is none, the
  first field whose name differs from the default dimension; when there is none either,
  the first field of the list; and it is none exactly when the list is empty.
\<close>

theorem C4_default_measure:
  "((\<exists>f\<in>set fds. field_type f = ''number'') \<longrightarrow>
      (\<exists>i<length fds. field_type (fds ! i) = ''number''
         \<and> (\<forall>j<i. field_type (fds ! j) \<noteq> ''number'')
         \<and> getDefaultMeasureField fds = Some (field_name (fds ! i))))
   \<and> ((\<forall>f\<in>set fds. field_type f \<noteq> ''number'')
        \<and> (\<exists>f\<in>set fds. Some (field_name f) \<noteq> getDefaultDimensionField fds) \<longrightarrow>
      (\<exists>i<length fds. Some (field_name (fds ! i)) \<noteq> getDefaultDimensionField fds
         \<and> (\<forall>j<i. Some (field_name (fds ! j)) = getDefaultDimensionField fds)
         \<and> getDefaultMeasureField fds = Some (field_name (fds ! i))))
   \<and> ((\<forall>f\<in>set fds. field_type f \<noteq> ''number''
                    \<and> Some (field_name f) = getDefaultDimensionField fds) \<longrightarrow>
      getDefaultMeasureField fds = first_name fds)
   \<and> (getDefaultMeasureField fds = None \<longleftrightarrow> fds = [])"
proof (intro conjI impI)
  assume "\<exists>f\<in>set fds. field_type f = ''number''"
  then obtain f where f: "find (\<lambda>f. field_type f = ''number'') fds = Some f"
    by (cases "find (\<lambda>f. field_type f = ''number'') fds") (auto simp: find_None_iff)
  then obtain i where "i < length fds" "field_type (fds ! i) = ''number''" "f = fds ! i"
    "\<forall>j<i. field_type (fds ! j) \<noteq> ''number''"
    unfolding find_Some_iff by blast
  with f show "\<exists>i<length fds. field_type (fds ! i) = ''number''
         \<and> (\<forall>j<i. field_type (fds ! j) \<noteq> ''number'')
         \<and> getDefaultMeasureField fds = Some (field_name (fds ! i))"
    by (auto simp: getDefaultMeasureField_def)
next
  assume a: "(\<forall>f\<in>set fds. field_type f \<noteq> ''number'')
        \<and> (\<exists>f\<in>set fds. Some (field_name f) \<noteq> getDefaultDimensionField fds)"
  then have n: "find (\<lambda>f. field_type f = ''number'') fds = None"
    by (simp add: find_None_iff)
  from a obtain f where f: "find (\<lambda>f. Some (field_name f) \<noteq> getDefaultDimensionField fds) fds = Some f"
    by (cases "find (\<lambda>f. Some (field_name f) \<noteq> getDefaultDimensionField fds) fds")
       (auto simp: find_None_iff)
  then obtain i where "i < length fds" "Some (field_name (fds ! i)) \<noteq> getDefaultDimensionField fds"
    "f = fds ! i" "\<forall>j<i. Some (field_name (fds ! j)) = getDefaultDimensionField fds"
    unfolding find_Some_iff by blast
  with n f show "\<exists>i<length fds. Some (field_name (fds ! i)) \<noteq> getDefaultDimensionField fds
         \<and> (\<forall>j<i. Some (field_name (fds ! j)) = getDefaultDimensionField fds)
         \<and> getDefaultMeasureField fds = Some (field_name (fds ! i))"
    by (auto simp: getDefaultMeasureField_def)
next
  assume a: "\<forall>f\<in>set fds. field_type f \<noteq> ''number''
                    \<and> Some (field_name f) = getDefaultDimensionField fds"
  then have "find (\<lambda>f. field_type f = ''number'') fds = None"
    and "find (\<lambda>f. Some (field_name f) \<noteq> getDefaultDimensionField fds) fds = None"
    by (simp_all add: find_None_iff)
  then show "getDefaultMeasureField fds = first_name fds"
    by (simp add: getDefaultMeasureField_def)
next
  show "getDefaultMeasureField fds = None \<longleftrightarrow> fds = []"
    by (cases fds)
       (auto simp: getDefaultMeasureField_def getDefaultDimensionField_def first_name_def
             split: option.splits)
qed

theorem C4_default_measure_witness:
  "getDefaultMeasureField three_fields = Some ''qty''
   \<and> getDefaultMeasureField (take 2 three_fields) = Some ''city''
   \<and> getDefaultMeasureField one_text_field = Some ''x''
   \<and> getDefaultMeasureField [] = None"
proof -
  have d2: "getDefaultDimensionField (take 2 three_fields) = Some ''day''"
    and d1: "getDefaultDimensionField one_text_field = Some ''x''"
    by code_simp+
  have "getDefaultMeasureField three_fields = Some ''qty''"
    using C4_default_measure [of three_fields]
    by (auto simp: three_fields_def less_Suc_eq nth_Cons')
  moreover have "getDefaultMeasureField (take 2 three_fields) = Some ''city''"
    using C4_default_measure [of "take 2 three_fields"] d2
    by (auto simp: three_fields_def less_Suc_eq nth_Cons')
  moreover have "getDefaultMeasureField one_text_field = Some ''x''"
    using C4_default_measure [of one_text_field] d1
    by (auto simp: one_text_field_def first_name_def)
  moreover have "getDefaultMeasureField [] = None"
    using C4_default_measure [of "[]"] by (simp add: first_name_def)
  ultimately show ?thesis by simp
qed

section \<open>The dialog: changing the measure field\<close>

lemma numericOnly_ids:
  "(case find (\<lambda>t. agg_id t = a) getAggregationTypes of Some t \<Rightarrow> numericOnly t | None \<Rightarrow> False)
     = (a \<in> {''sum'', ''average'', ''min'', ''max''})"
  by (auto simp: getAggregationTypes_def)

lemma is_numeric_field_first:
  "is_numeric_field fds (Some v)
     \<longleftrightarrow> (\<exists>i<length fds. field_name (fds ! i) = v \<and> field_type (fds ! i) = ''number''
                          \<and> (\<forall>j<i. field_name (fds ! j) \<noteq> v))"
proof
  assume "is_numeric_field fds (Some v)"
  then obtain f where f: "find (\<lambda>d. Some (field_name d) = Some v) fds = Some f"
    and t: "field_type f = ''number''"
    by (auto simp: is_numeric_field_def split: option.splits)
  from f obtain i where "i < length fds" "field_name (fds ! i) = v" "f = fds ! i"
    "\<forall>j<i. field_name (fds ! j) \<noteq> v"
    unfolding find_Some_iff by auto
  with t show "\<exists>i<length fds. field_name (fds ! i) = v \<and> field_type (fds ! i) = ''number''
                          \<and> (\<forall>j<i. field_name (fds ! j) \<noteq> v)"
    by auto
next
  assume "\<exists>i<length fds. field_name (fds ! i) = v \<and> field_type (fds ! i) = ''number''
                          \<and> (\<forall>j<i. field_name (fds ! j) \<noteq> v)"
  then obtain i where i: "i < length fds" "field_name (fds ! i) = v"
    "field_type (fds ! i) = ''number''" "\<forall>j<i. field_name (fds ! j) \<noteq> v"
    by blast
  then have "find (\<lambda>d. Some (field_name d) = Some v) fds = Some (fds ! i)"
    unfolding find_Some_iff by auto
  with i show "is_numeric_field fds (Some v)"
    by (simp add: is_numeric_field_def)
qed

text \<open>
  C8. When a numeric-only aggregation (sum, average, min or max) is active and the measure
  changes to a field that is not numeric, the aggregation becomes \<^verbatim>\<open>count\<close>; a change to
  a numeric field, and any change while another aggregation is active, leave the
  aggregation as it is. A field is numeric when the first descriptor of that name has
  the type \<^verbatim>\<open>number\<close>; a name with no descriptor is not numeric.
\<close>

theorem C8_measure_change:
  "(aggregationType s \<in> {''sum'', ''average'', ''min'', ''max''}
      \<and> \<not> is_numeric_field (availableFields s) (Some v)
      \<longrightarrow> aggregationType (onMeasureFieldChanged v s) = ''count'')
   \<and> (is_numeric_field (availableFields s) (Some v)
      \<longrightarrow> aggregationType (onMeasureFieldChanged v s) = aggregationType s)
   \<and> (aggregationType s \<notin> {''sum'', ''average'', ''min'', ''max''}
      \<longrightarrow> aggregationType (onMeasureFieldChanged v s) = aggregationType s)
   \<and> measureField (onMeasureFieldChanged v s) = Some v
   \<and> (is_numeric_field (availableFields s) (Some v)
        \<longleftrightarrow> (\<exists>i<length (availableFields s).
               field_name (availableFields s ! i) = v
             \<and> field_type (availableFields s ! i) = ''number''
             \<and> (\<forall>j<i. field_name (availableFields s ! j) \<noteq> v)))"
  using is_numeric_field_first [of "availableFields s" v]
  by (simp add: onMeasureFieldChanged_def Let_def numericOnly_ids)

theorem C8_measure_change_witness:
  "aggregationType (onMeasureFieldChanged ''city'' example_state) = ''count''
   \<and> aggregationType (onMeasureFieldChanged ''qty'' example_state) = ''sum''
   \<and> aggregationType (onMeasureFieldChanged ''city'' (example_state\<lparr>aggregationType := ''none''\<rparr>))
       = ''none''"
proof -
  have a: "aggregationType example_state = ''sum''"
    and f: "availableFields example_state = three_fields"
    by (simp_all add: example_state_def dialog_setup_def)
  have n: "\<not> is_numeric_field three_fields (Some ''city'')"
    and q: "is_numeric_field three_fields (Some ''qty'')"
    by (simp_all add: is_numeric_field_def three_fields_def)
  have "aggregationType (onMeasureFieldChanged ''city'' example_state) = ''count''"
    using C8_measure_change [of example_state "''city''"] a f n by simp
  moreover have "aggregationType (onMeasureFieldChanged ''qty'' example_state) = ''sum''"
    using C8_measure_change [of example_state "''qty''"] a f q by simp
  moreover have "aggregationType (onMeasureFieldChanged ''city'' (example_state\<lparr>aggregationType := ''none''\<rparr>))
       = ''none''"
    using C8_measure_change [of "example_state\<lparr>aggregationType := ''none''\<rparr>" "''city''"] by simp
  ultimately show ?thesis by simp
qed

section \<open>The dialog: changing the visualization type\<close>

lemma type_change_frame:
  "dimensionField (onVisualizationTypeChanged v s) = dimensionField s
   \<and> measureField (onVisualizationTypeChanged v s) = measureField s
   \<and> seriesField (onVisualizationTypeChanged v s) = seriesField s
   \<and> name (onVisualizationTypeChanged v s) = name s
   \<and> availableFields (onVisualizationTypeChanged v s) = availableFields s
   \<and> aggregationType (onVisualizationTypeChanged v s) = aggregationType s
   \<and> validationError (onVisualizationTypeChanged v s) = validationError s"
  by (simp add: onVisualizationTypeChanged_def Let_def)

lemma type_changes_frame:
  "dimensionField (changeTypes vs s) = dimensionField s
   \<and> measureField (changeTypes vs s) = measureField s
   \<and> seriesField (changeTypes vs s) = seriesField s
   \<and> name (changeTypes vs s) = name s
   \<and> availableFields (changeTypes vs s) = availableFields s
   \<and> aggregationType (changeTypes vs s) = aggregationType s
   \<and> validationError (changeTypes vs s) = validationError s"
proof (induction vs arbitrary: s)
  case Nil
  show ?case by (simp add: changeTypes_def)
next
  case (Cons v vs)
  have "changeTypes (v # vs) s = changeTypes vs (onVisualizationTypeChanged v s)"
    by (simp add: changeTypes_def)
  with Cons [of "onVisualizationTypeChanged v s"] type_change_frame [of v s]
  show ?case by simp
qed

lemma type_change_flags:
  assumes "v \<in> {''bar'', ''line'', ''pie''}" "v \<noteq> visualizationType s"
  shows "\<not> truthy (obj_get (config (onVisualizationTypeChanged v s)) ''stacked'')"
    and "\<not> truthy (obj_get (config (onVisualizationTypeChanged v s)) ''cumulated'')"
    and "obj_get (config (onVisualizationTypeChanged v s)) ''dimensionField''
           = selection (dimensionField s)"
    and "obj_get (config (onVisualizationTypeChanged v s)) ''measureField''
           = selection (measureField s)"
    and "visualizationType (onVisualizationTypeChanged v s) = v"
  using assms
  by (auto simp: onVisualizationTypeChanged_def Let_def obj_get_def truthy_def)

text \<open>
  C9. Whatever sequence of visualization types is chosen, the dimension, measure and
  series selections of the state are what they were, and so are the name, the field
  list, the aggregation and the validation error. A change to another of the three types
  leaves neither \<^verbatim>\<open>stacked\<close> nor \<^verbatim>\<open>cumulated\<close> set in the new config, which carries
  copies of the dimension and measure selections.
\<close>

theorem C9_type_change_keeps_selections:
  "dimensionField (changeTypes vs s) = dimensionField s
   \<and> measureField (changeTypes vs s) = measureField s
   \<and> seriesField (changeTypes vs s) = seriesField s
   \<and> name (changeTypes vs s) = name s
   \<and> availableFields (changeTypes vs s) = availableFields s
   \<and> aggregationType (changeTypes vs s) = aggregationType s
   \<and> validationError (changeTypes vs s) = validationError s
   \<and> (v \<in> {''bar'', ''line'', ''pie''} \<and> v \<noteq> visualizationType s \<longrightarrow>
        \<not> truthy (obj_get (config (onVisualizationTypeChanged v s)) ''stacked'')
      \<and> \<not> truthy (obj_get (config (onVisualizationTypeChanged v s)) ''cumulated'')
      \<and> obj_get (config (onVisualizationTypeChanged v s)) ''dimensionField''
           = selection (dimensionField s)
      \<and> obj_get (config (onVisualizationTypeChanged v s)) ''measureField''
           = selection (measureField s))"
  using type_changes_frame [of vs s] type_change_flags [of v s] by blast

theorem C9_type_change_keeps_selections_witness:
  "dimensionField (changeTypes [''line'', ''pie'', ''bar''] example_state) = Some ''day''
   \<and> measureField (changeTypes [''line'', ''pie'', ''bar''] example_state) = Some ''qty''
   \<and> seriesField (changeTypes [''line'', ''pie'', ''bar''] example_state) = Some ''city''
   \<and> truthy (obj_get (config example_state) ''stacked'')
   \<and> \<not> truthy (obj_get (config (onVisualizationTypeChanged ''line'' example_state)) ''stacked'')"
proof -
  have s: "dimensionField example_state = Some ''day''" "measureField example_state = Some ''qty''"
    "seriesField example_state = Some ''city''" "visualizationType example_state = ''bar''"
    "truthy (obj_get (config example_state) ''stacked'')"
    by code_simp+
  show ?thesis
    using C9_type_change_keeps_selections [of "[''line'', ''pie'', ''bar'']" example_state "''line''"] s
    by simp
qed

section \<open>The Field Inspector: classification\<close>

lemma own_keys_set: "set (own_keys kvs) = fst ` set kvs"
  by (auto simp: own_keys_def Let_def)

lemma own_keys_distinct: "distinct (own_keys kvs)"
  by (auto simp: own_keys_def Let_def)

lemma classify_number: "classify v = ''number'' \<longleftrightarrow> typeof v = ''number''"
  by (simp add: classify_def)

lemma classify_date:
  "classify v = ''date'' \<longleftrightarrow> instanceof_Date v \<or> (\<exists>s. v = VStr s \<and> iso_date_prefix s)"
  by (cases v) (auto simp: classify_def typeof_def instanceof_Date_def)

lemma classify_string:
  "classify v = ''string'' \<longleftrightarrow>
     typeof v \<noteq> ''number'' \<and> \<not> instanceof_Date v \<and> (\<forall>s. v = VStr s \<longrightarrow> \<not> iso_date_prefix s)"
  by (cases v) (auto simp: classify_def typeof_def instanceof_Date_def)

lemma add_fields_foldl:
  "foldl (\<lambda>fds (field, v). if technical field then fds
            else fds @ [\<lparr>field_name = field, field_type = classify v,
                           field_label = title_case field\<rparr>]) acc (map (\<lambda>k. (k, g k)) ks)
   = acc @ map (\<lambda>k. \<lparr>field_name = k, field_type = classify (g k), field_label = title_case k\<rparr>)
             (filter (\<lambda>k. \<not> technical k) ks)"
  by (induction ks arbitrary: acc) auto

text \<open>
  C3. The claim: a field is a date when its value is a date object, exposes a
  year-extraction method, or is a string with the ISO date prefix.
  \<^verbatim>\<open>_addFieldsFromRecord\<close> tests \<^verbatim>\<open>value instanceof Date\<close> and the ISO prefix of a string
  only. An object that is not a \<^verbatim>\<open>Date\<close> and exposes \<^verbatim>\<open>getFullYear\<close> is date-like for
  the Chart Data Builder (\<open>date_like\<close>) and a string for the Field Inspector.
\<close>

theorem C3_counterexample:
  "has_getFullYear (VYear ''[object Object]'')
   \<and> date_like (VYear ''[object Object]'')
   \<and> addFieldsFromRecord (VObj [(''when'', VYear ''[object Object]'')]) []
       = Some [\<lparr>field_name = ''when'', field_type = ''string'', field_label = ''When''\<rparr>]"
  by code_simp

text \<open>
  C3, as amended: the descriptors produced for a record are those of its own fields, in
  enumeration order, without the fields named \<^verbatim>\<open>id\<close> or \<^verbatim>\<open>has_linked_data\<close> or ending in
  \<^verbatim>\<open>_info\<close>; a field is a number when the type of its value is number, a date when its
  value is a \<^verbatim>\<open>Date\<close> object or a string with the ISO date prefix, and a string otherwise.
  Inspecting null or undefined raises a TypeError.
\<close>

theorem C3_field_classification:
  "addFieldsFromRecord record acc =
     (if nullish record then None
      else Some (acc @ map (\<lambda>k. \<lparr>field_name = k, field_type = classify (read_prop record k),
                                  field_label = title_case k\<rparr>)
                          (filter (\<lambda>k. \<not> technical k) (enum_keys record))))
   \<and> set (enum_keys (VObj kvs)) = fst ` set kvs
   \<and> distinct (enum_keys (VObj kvs))
   \<and> (classify v = ''number'' \<longleftrightarrow> typeof v = ''number'')
   \<and> (classify v = ''date'' \<longleftrightarrow> instanceof_Date v \<or> (\<exists>s. v = VStr s \<and> iso_date_prefix s))
   \<and> (classify v = ''string'' \<longleftrightarrow>
        typeof v \<noteq> ''number'' \<and> \<not> instanceof_Date v
        \<and> \<not> (\<exists>s. v = VStr s \<and> iso_date_prefix s))
   \<and> technical k = (k = ''id'' \<or> k = ''has_linked_data'' \<or> ends_with ''_info'' k)"
proof -
  have "addFieldsFromRecord record acc =
     (if nullish record then None
      else Some (acc @ map (\<lambda>k. \<lparr>field_name = k, field_type = classify (read_prop record k),
                                  field_label = title_case k\<rparr>)
                          (filter (\<lambda>k. \<not> technical k) (enum_keys record))))"
    by (simp add: addFieldsFromRecord_def Object_entries_def add_fields_foldl)
  moreover have "set (enum_keys (VObj kvs)) = fst ` set kvs" "distinct (enum_keys (VObj kvs))"
    by (simp_all add: enum_keys_def own_keys_set own_keys_distinct)
  moreover have "classify v = ''string'' \<longleftrightarrow>
        typeof v \<noteq> ''number'' \<and> \<not> instanceof_Date v
        \<and> \<not> (\<exists>s. v = VStr s \<and> iso_date_prefix s)"
    using classify_string [of v] by blast
  ultimately show ?thesis
    using classify_number [of v] classify_date [of v] by (simp add: technical_def)
qed

section \<open>The dialog: confirmation\<close>

lemma map_of_replace:
  "map_of (map (\<lambda>(k', v'). if k' = k then (k', v) else (k', v')) kvs) k'' =
     (if k'' = k \<and> map_of kvs k \<noteq> None then Some v else map_of kvs k'')"
  by (induction kvs) auto

lemma map_of_obj_set:
  "map_of (obj_set kvs k v) k' = (if k' = k then Some v else map_of kvs k')"
proof (cases "map_of kvs k")
  case None
  then show ?thesis
    by (auto simp: obj_set_def map_add_def split: option.splits)
next
  case (Some x)
  then show ?thesis
    by (simp add: obj_set_def map_of_replace)
qed


lemma obj_get_set_other: "k' \<noteq> k \<Longrightarrow> obj_get (obj_set kvs k v) k' = obj_get kvs k'"
  by (simp add: obj_get_def map_of_obj_set)

lemma stacked_bar_config:
  "k \<noteq> ''stacked'' \<Longrightarrow> visualizationType s' = visualizationType s \<Longrightarrow>
   config s' = obj_set (config s) k v \<Longrightarrow> stacked_bar s' = stacked_bar s"
  by (simp add: stacked_bar_def obj_get_set_other)






section \<open>The Chart Data Builder: the terminal fallback\<close>

lemma get_read_prop: "\<not> nullish v \<Longrightarrow> get v k = Some (read_prop v k)"
  by (cases v) (auto simp: get_def read_prop_def nullish_def)

lemma get_Some_not_nullish: "get v k = Some x \<Longrightarrow> \<not> nullish v"
  by (cases v) (auto simp: get_def nullish_def)

lemma truthy_not_nullish: "truthy v \<Longrightarrow> \<not> nullish v"
  by (cases v) (auto simp: truthy_def nullish_def)

lemma getChartData_rules:
  "reaches_rules parse r vt cfg sr \<Longrightarrow>
     getChartData parse dark r = apply_rules dark vt cfg sr"
  by (simp add: reaches_rules_def getChartData_def Let_def)

lemma nonempty_empty: "nonempty (VArr []) = Some False"
  by (simp add: nonempty_def get_def gt_zero_def ToNumber_def js_less_def)

lemma sample_data:
  "get (getSampleData dark vt) ''labels'' = Some sample_labels
   \<and> (\<exists>ds. get (getSampleData dark vt) ''datasets'' = Some (VArr [ds])
            \<and> get ds ''data'' = Some sample_values)"
  by (simp add: getSampleData_def get_def)

lemma unrecognised_rules:
  assumes u: "get p ''chartDefinition'' = Some VUndefined" "get p ''multi_model'' = Some VUndefined"
    "get p ''records'' = Some VUndefined" "get p ''aggregation'' = Some VUndefined"
    and c: "\<not> nullish cfg"
  shows "apply_rules dark vt cfg p = Some (getSampleData dark vt)"
proof -
  have t: "\<not> truthy VUndefined" by (simp add: truthy_def)
  have r: "get p ''results'' \<noteq> None"
    using u(1) get_Some_not_nullish get_read_prop by fastforce
  then obtain x where x: "get p ''results'' = Some x" by blast
  have f: "find_records p = Some (VArr [])"
    by (simp add: find_records_def u x t)
  have 1: "rule_chartDefinition vt cfg p = Some None"
    by (simp add: rule_chartDefinition_def u t)
  have 2: "rule_config vt cfg p = Some None"
    by (simp add: rule_config_def u t get_read_prop [OF c] f nonempty_empty)
  have 3: "rule_aggregation vt p = Some None"
    by (simp add: rule_aggregation_def u)
  have 4: "rule_multi_model dark vt p = Some None"
    by (simp add: rule_multi_model_def u x)
  have 5: "rule_records vt p = Some None"
    by (simp add: rule_records_def u t)
  show ?thesis
    by (simp add: apply_rules_def or_else_def 1 2 3 4 5)
qed

text \<open>
  Where the fallback works: the Builder returns the sample dataset when the report has no
  data, when every rule falls through without throwing, and in particular for every
  payload on which none of the properties \<^verbatim>\<open>graphData\<close>, \<^verbatim>\<open>data\<close>, \<^verbatim>\<open>labels\<close>,
  \<^verbatim>\<open>datasets\<close>, \<^verbatim>\<open>chartDefinition\<close>, \<^verbatim>\<open>multi_model\<close>, \<^verbatim>\<open>records\<close>, \<^verbatim>\<open>aggregation\<close> is
  defined (such as \<^verbatim>\<open>{foo: "bar"}\<close>), provided the report's config is not the JSON text
  \<^verbatim>\<open>null\<close>. The sample dataset has the labels Sample A to Sample E and the values 30, 20,
  25, 15, 10 for every visualization type.
\<close>

lemma sample_fallback:
  "(\<not> truthy (parse_data parse (report_data r)) \<longrightarrow>
      getChartData parse dark r = Some (getSampleData dark (report_visualization_type r)))
   \<and> (reaches_rules parse r vt cfg sr
        \<and> rule_chartDefinition vt cfg sr = Some None
        \<and> rule_config vt cfg sr = Some None
        \<and> rule_aggregation vt sr = Some None
        \<and> rule_multi_model dark vt sr = Some None
        \<and> rule_records vt sr = Some None \<longrightarrow>
      getChartData parse dark r = Some (getSampleData dark vt))
   \<and> (truthy (parse_data parse (report_data r))
        \<and> (\<forall>k\<in>set [''graphData'', ''data'', ''labels'', ''datasets'', ''chartDefinition'',
                     ''multi_model'', ''records'', ''aggregation''].
              get (parse_data parse (report_data r)) k = Some VUndefined)
        \<and> \<not> nullish (parse_config parse (report_config r)) \<longrightarrow>
      getChartData parse dark r = Some (getSampleData dark (report_visualization_type r)))
   \<and> get (getSampleData dark vt) ''labels''
       = Some (VArr [VStr ''Sample A'', VStr ''Sample B'', VStr ''Sample C'', VStr ''Sample D'',
                     VStr ''Sample E''])
   \<and> (\<exists>ds. get (getSampleData dark vt) ''datasets'' = Some (VArr [ds])
            \<and> get ds ''data''
                = Some (VArr [VNum (Fin 30), VNum (Fin 20), VNum (Fin 25), VNum (Fin 15),
                              VNum (Fin 10)]))"
proof (intro conjI impI)
  assume "\<not> truthy (parse_data parse (report_data r))"
  then show "getChartData parse dark r = Some (getSampleData dark (report_visualization_type r))"
    by (simp add: getChartData_def Let_def)
next
  assume "reaches_rules parse r vt cfg sr
        \<and> rule_chartDefinition vt cfg sr = Some None
        \<and> rule_config vt cfg sr = Some None
        \<and> rule_aggregation vt sr = Some None
        \<and> rule_multi_model dark vt sr = Some None
        \<and> rule_records vt sr = Some None"
  then have rr: "reaches_rules parse r vt cfg sr"
    and rs: "rule_chartDefinition vt cfg sr = Some None" "rule_config vt cfg sr = Some None"
      "rule_aggregation vt sr = Some None" "rule_multi_model dark vt sr = Some None"
      "rule_records vt sr = Some None"
    by simp_all
  show "getChartData parse dark r = Some (getSampleData dark vt)"
    by (simp add: getChartData_rules [OF rr] apply_rules_def or_else_def rs)
next
  let ?p = "parse_data parse (report_data r)"
  assume a: "truthy ?p
        \<and> (\<forall>k\<in>set [''graphData'', ''data'', ''labels'', ''datasets'', ''chartDefinition'',
                     ''multi_model'', ''records'', ''aggregation''].
              get ?p k = Some VUndefined)
        \<and> \<not> nullish (parse_config parse (report_config r))"
  have t: "\<not> truthy VUndefined" by (simp add: truthy_def)
  from a have "reaches_rules parse r (report_visualization_type r)
                 (parse_config parse (report_config r)) ?p"
    by (simp add: reaches_rules_def search_results_def pass_through_def js_or_def t)
  moreover from a have "apply_rules dark (report_visualization_type r)
      (parse_config parse (report_config r)) ?p
        = Some (getSampleData dark (report_visualization_type r))"
    by (intro unrecognised_rules) simp_all
  ultimately show "getChartData parse dark r
      = Some (getSampleData dark (report_visualization_type r))"
    by (simp add: getChartData_rules)
next
  show "get (getSampleData dark vt) ''labels''
       = Some (VArr [VStr ''Sample A'', VStr ''Sample B'', VStr ''Sample C'', VStr ''Sample D'',
                     VStr ''Sample E''])"
    using sample_data [of dark vt] by (simp add: sample_labels_def)
  show "\<exists>ds. get (getSampleData dark vt) ''datasets'' = Some (VArr [ds])
            \<and> get ds ''data''
                = Some (VArr [VNum (Fin 30), VNum (Fin 20), VNum (Fin 25), VNum (Fin 15),
                              VNum (Fin 10)])"
    using sample_data [of dark vt] by (simp add: sample_values_def num_def)
qed

lemma sample_fallback_foo_bar:
  "getChartData (\<lambda>s. None) False (example_report ''bar'' VUndefined payload_foo_bar)
     = Some (getSampleData False (VStr ''bar''))
   \<and> get (getSampleData False (VStr ''bar'')) ''labels''
       = Some (VArr (map VStr [''Sample A'', ''Sample B'', ''Sample C'', ''Sample D'', ''Sample E'']))"
proof -
  let ?r = "example_report ''bar'' VUndefined payload_foo_bar"
  have d: "parse_data (\<lambda>s. None) (report_data ?r) = payload_foo_bar"
    and c: "parse_config (\<lambda>s. None) (report_config ?r) = VObj []"
    and v: "report_visualization_type ?r = VStr ''bar''"
    by (simp_all add: example_report_def parse_data_def parse_config_def payload_foo_bar_def
          js_or_def truthy_def)
  have h: "truthy payload_foo_bar
        \<and> (\<forall>k\<in>set [''graphData'', ''data'', ''labels'', ''datasets'', ''chartDefinition'',
                     ''multi_model'', ''records'', ''aggregation''].
              get payload_foo_bar k = Some VUndefined)
        \<and> \<not> nullish (VObj [])"
    by (simp add: payload_foo_bar_def truthy_def get_def nullish_def)
  show ?thesis
    using sample_fallback [of "\<lambda>s. None" ?r False "VStr ''bar''" "VObj []" payload_foo_bar] h
    unfolding d c v by (simp add: sample_labels_def)
qed

text \<open>
  C5. The claim: for every payload the Builder never fails outward and returns the sample
  dataset whenever no rule produces a result. \<^verbatim>\<open>getChartData\<close> guards the two
  \<^verbatim>\<open>JSON.parse\<close> calls and returns the sample data for a multi-model payload without
  models or without records, but other reads are unguarded. On
  \<^verbatim>\<open>{multi_model: true, results: [{_dateAggregation: {}}]}\<close> it reads \<^verbatim>\<open>dates.length\<close> of
  an undefined \<^verbatim>\<open>dates\<close>, and on a chart definition without \<^verbatim>\<open>measureField\<close> it calls
  \<^verbatim>\<open>measureField.replace\<close> on undefined. Both raise a TypeError that leaves
  \<^verbatim>\<open>getChartData\<close>: no chart data is returned, and no sample dataset.
\<close>

theorem C5_builder_throws:
  "getChartData (\<lambda>s. None) False (example_report ''bar'' (VObj []) payload_without_dates) = None
   \<and> getChartData (\<lambda>s. None) False (example_report ''bar'' (VObj []) payload_without_measure) = None"
  by code_simp

section \<open>The Chart Data Builder: stacked charts\<close>

lemma mapM_map: "(\<And>x. x \<in> set xs \<Longrightarrow> f x = Some (g x)) \<Longrightarrow> mapM f xs = Some (map g xs)"
  by (induction xs) simp_all

lemma foldM_foldl:
  "(\<And>s x. x \<in> set xs \<Longrightarrow> f s x = Some (g s x)) \<Longrightarrow> foldM f s xs = Some (foldl g s xs)"
  by (induction xs arbitrary: s) simp_all

lemma get_at_read: "\<not> nullish r \<Longrightarrow> get_at r f = Some (read_prop r (ToString f))"
  by (simp add: get_at_def get_read_prop)

lemma aggregateValues_total:
  assumes "list_all (\<lambda>r. \<not> nullish r) rs"
  shows "\<exists>n. aggregateValues rs f a = Some n"
proof -
  have nn: "\<And>r. r \<in> set rs \<Longrightarrow> \<not> nullish r"
    using assms by (simp add: list_all_iff)
  have m: "mapM (\<lambda>record. do { v \<leftarrow> get_at record f; Some (coerce_measure v) }) rs
             = Some (map (\<lambda>r. coerce_measure (read_prop r (ToString f))) rs)"
    by (rule mapM_map) (simp add: get_at_read nn)
  show ?thesis
  proof (cases rs)
    case Nil
    then show ?thesis by (simp add: aggregateValues_def)
  next
    case (Cons r rs')
    then have "\<not> nullish r" using nn by simp
    then have "get_at r f = Some (read_prop r (ToString f))"
      by (rule get_at_read)
    then show ?thesis
      using m unfolding aggregateValues_def Cons by (simp add: Let_def del: mapM.simps)
  qed
qed

lemma aggregateValues_empty: "aggregateValues [] f a = Some (Fin 0)"
  by (simp add: aggregateValues_def)

lemma matching_subset: "set (matching rs ds ss d s) \<subseteq> set rs"
  by (auto simp: matching_def dest: set_zip_leftD)

lemma svz_sym: "same_value_zero a b = same_value_zero b a"
  by (auto simp: same_value_zero_def)

lemma svz_refl: "same_value_zero a a"
  by (simp add: same_value_zero_def)

lemma svz_distinct_snoc:
  "svz_distinct (xs @ [x]) = (svz_distinct xs \<and> \<not> list_ex (\<lambda>y. same_value_zero y x) xs)"
  by (induction xs) (auto simp: list_ex_iff svz_sym)

lemma Set_values_step:
  fixes xs :: "jsref list"
  defines "step \<equiv> (\<lambda>acc x. if list_ex (\<lambda>y. same_value_zero y x) acc then acc else acc @ [x])"
  shows "(svz_distinct acc \<longrightarrow> svz_distinct (foldl step acc xs))
       \<and> set acc \<subseteq> set (foldl step acc xs)
       \<and> set (foldl step acc xs) \<subseteq> set acc \<union> set xs
       \<and> (\<forall>x\<in>set xs. \<exists>y\<in>set (foldl step acc xs). same_value_zero y x)"
proof (induction xs arbitrary: acc)
  case Nil
  show ?case by simp
next
  case (Cons x xs)
  let ?a = "step acc x"
  have d: "svz_distinct acc \<longrightarrow> svz_distinct ?a"
    by (simp add: step_def svz_distinct_snoc)
  have s: "set acc \<subseteq> set ?a" "set ?a \<subseteq> set acc \<union> {x}"
    by (auto simp: step_def)
  have c: "\<exists>y\<in>set ?a. same_value_zero y x"
    by (auto simp: step_def list_ex_iff svz_refl)
  have f: "foldl step acc (x # xs) = foldl step ?a xs" by simp
  from Cons [of ?a] d s c show ?case
    unfolding f by (simp; blast)
qed

lemma Set_values_props:
  "svz_distinct (Set_values xs)
   \<and> set (Set_values xs) \<subseteq> set xs
   \<and> (\<forall>x\<in>set xs. \<exists>y\<in>set (Set_values xs). same_value_zero y x)"
  using Set_values_step [of "[]" xs] by (simp add: Set_values_def)

lemma stacked_chart_shape:
  assumes nn: "list_all (\<lambda>r. \<not> nullish r) rs"
    and cell: "\<And>m. m \<noteq> [] \<Longrightarrow> set m \<subseteq> set rs \<Longrightarrow> cell m = Some (c m)"
  shows "stacked_chart cell rs dimF serF =
     Some (chart (VArr (map (\<lambda>d. dimension_label (snd d)) (Set_values (field_values rs dimF))))
       (map (\<lambda>(i, s). series_dataset i (snd s)
               (map (\<lambda>d. if matching rs (field_values rs dimF) (field_values rs serF) d s \<noteq> []
                         then c (matching rs (field_values rs dimF) (field_values rs serF) d s)
                         else Fin 0)
                    (Set_values (field_values rs dimF))))
            (enumerate 0 (Set_values (field_values rs serF)))))"
proof -
  have n: "\<And>r. r \<in> set rs \<Longrightarrow> \<not> nullish r"
    using nn by (simp add: list_all_iff)
  have d: "mapM (\<lambda>r. get_at r dimF) rs = Some (map (\<lambda>r. read_prop r (ToString dimF)) rs)"
    by (rule mapM_map) (simp add: get_at_read n)
  have s: "mapM (\<lambda>r. get_at r serF) rs = Some (map (\<lambda>r. read_prop r (ToString serF)) rs)"
    by (rule mapM_map) (simp add: get_at_read n)
  let ?dv = "field_values rs dimF" and ?sv = "field_values rs serF"
  let ?g = "\<lambda>sv d. if matching rs ?dv ?sv d sv \<noteq> [] then c (matching rs ?dv ?sv d sv) else Fin 0"
  have inner: "\<And>sv. mapM (\<lambda>dimValue.
             (let matchingRecords = matching rs ?dv ?sv dimValue sv
              in if matchingRecords \<noteq> [] then cell matchingRecords else Some (Fin 0)))
           (Set_values ?dv) = Some (map (?g sv) (Set_values ?dv))"
    by (rule mapM_map) (simp add: Let_def cell matching_subset)
  have outer: "mapM (\<lambda>(index, seriesValue). do {
         seriesData \<leftarrow> mapM (\<lambda>dimValue.
             (let matchingRecords = matching rs ?dv ?sv dimValue seriesValue
              in if matchingRecords \<noteq> [] then cell matchingRecords else Some (Fin 0)))
           (Set_values ?dv);
         Some (series_dataset index (snd seriesValue) seriesData)
       }) (enumerate 0 (Set_values ?sv))
     = Some (map (\<lambda>(i, sv). series_dataset i (snd sv) (map (?g sv) (Set_values ?dv)))
               (enumerate 0 (Set_values ?sv)))"
    by (rule mapM_map) (simp add: inner split_beta)
  show ?thesis
    unfolding stacked_chart_def d s
    using outer by (simp add: field_values_def Let_def)
qed

lemma nonempty_array: "rs \<noteq> [] \<Longrightarrow> nonempty (VArr rs) = Some True"
  by (simp add: nonempty_def get_def gt_zero_def ToNumber_def js_less_def)

lemma or_else_result: "or_else (Some (Some c)) k = Some c"
  by (simp add: or_else_def)

lemma rule_chartDefinition_stacked:
  assumes cd: "get sr ''chartDefinition'' = Some cd" "truthy cd"
    and df: "get cd ''dimensionField'' = Some dimF" "truthy dimF"
    and sf: "get cd ''seriesField'' = Some serF" "truthy serF"
    and mf: "get cd ''measureField'' = Some mF"
    and ag: "get cd ''aggregationType'' = Some a"
    and st: "get cfg ''stacked'' = Some sk" "truthy sk"
    and rs: "find_records sr = Some (VArr rs)" "rs \<noteq> []"
  shows "rule_chartDefinition (VStr ''bar'') cfg sr =
     do { c \<leftarrow> stacked_chart (\<lambda>m. aggregateValues m mF (js_or a (VStr ''count''))) rs dimF serF;
          Some (Some c) }"
  by (simp add: rule_chartDefinition_def cd df sf mf ag st rs nonempty_array is_stacked_def
        as_array_def Let_def)

lemma zip3_nth:
  assumes "length ds = length rs" "length ss = length rs"
  shows "zip rs (zip ds ss) = map (\<lambda>k. (rs ! k, ds ! k, ss ! k)) [0 ..< length rs]"
  using assms by (intro nth_equalityI) simp_all

lemma matching_indices:
  assumes "length ds = length rs" "length ss = length rs"
  shows "matching rs ds ss d s =
     map ((!) rs) (filter (\<lambda>k. loose_eq (ds ! k) d \<and> loose_eq (ss ! k) s) [0 ..< length rs])"
  unfolding matching_def zip3_nth [OF assms]
  by (simp add: filter_map comp_def)

lemma field_values_nth:
  "length (field_values rs f) = length rs
   \<and> (\<forall>k<length rs. field_values rs f ! k = (k, read_prop (rs ! k) (ToString f)))"
  by (simp add: field_values_def tagged_def)

lemma matching_field_values:
  "matching rs (field_values rs f) (field_values rs g) d s =
     map ((!) rs)
       (filter (\<lambda>k. loose_eq (k, read_prop (rs ! k) (ToString f)) d
                   \<and> loose_eq (k, read_prop (rs ! k) (ToString g)) s) [0 ..< length rs])"
proof -
  have "filter (\<lambda>k. loose_eq (field_values rs f ! k) d \<and> loose_eq (field_values rs g ! k) s)
          [0 ..< length rs]
      = filter (\<lambda>k. loose_eq (k, read_prop (rs ! k) (ToString f)) d
                   \<and> loose_eq (k, read_prop (rs ! k) (ToString g)) s) [0 ..< length rs]"
    by (rule filter_cong) (simp_all add: field_values_nth)
  then show ?thesis
    by (simp add: matching_indices field_values_nth)
qed

lemma strings_equal:
  "loose_eq (i, VStr u) (j, VStr v) = (u = v) \<and> same_value_zero (i, VStr u) (j, VStr v) = (u = v)"
  by (simp add: loose_eq_def same_value_zero_def is_object_def prim_loose_eq_def nullish_def)

text \<open>
  The shape of a stacked bar chart. A bar chart with \<^verbatim>\<open>config.stacked\<close> and a chart
  definition that names a dimension field and a series field, on a non-empty array of
  records none of which is null: the Builder returns one dataset per distinct series value
  and one label per distinct dimension value, and the point of a series value and a
  dimension value is what \<^verbatim>\<open>_aggregateValues\<close> returns (for \<^verbatim>\<open>count\<close> when no
  aggregation is selected) on the records that match both, 0 when no record matches.
  Distinct is meant as \<^verbatim>\<open>Set\<close> takes it and matching as \<^verbatim>\<open>==\<close> takes it: strings and
  numbers by value, an array or object as itself only. \<open>D\<close> and \<open>S\<close> are the distinct
  dimension and series values: free of repetitions, drawn from the records and covering
  every record's value. The records that match a dimension value and a series value are
  the records, in their order, whose two fields are \<^verbatim>\<open>==\<close> to them; two strings are the
  same value, and \<^verbatim>\<open>==\<close>, exactly when they are equal.
\<close>

lemma stacked_bar_shape:
  assumes rr: "reaches_rules parse r (VStr ''bar'') cfg sr"
    and cd: "get sr ''chartDefinition'' = Some cd" "truthy cd"
    and df: "get cd ''dimensionField'' = Some dimF" "truthy dimF"
    and sf: "get cd ''seriesField'' = Some serF" "truthy serF"
    and mf: "get cd ''measureField'' = Some mF"
    and ag: "get cd ''aggregationType'' = Some a"
    and st: "get cfg ''stacked'' = Some sk" "truthy sk"
    and rs: "find_records sr = Some (VArr rs)" "rs \<noteq> []" "list_all (\<lambda>x. \<not> nullish x) rs"
  defines "dv \<equiv> field_values rs dimF" and "sv \<equiv> field_values rs serF"
  defines "D \<equiv> Set_values dv" and "S \<equiv> Set_values sv"
  shows "\<exists>data.
      getChartData parse dark r =
        Some (chart (VArr (map (\<lambda>d. dimension_label (snd d)) D))
                (map (\<lambda>(i, s). series_dataset i (snd s) (data ! i)) (enumerate 0 S)))
      \<and> length data = length S
      \<and> (\<forall>i<length S. length (data ! i) = length D
           \<and> (\<forall>j<length D.
                 aggregateValues (matching rs dv sv (D ! j) (S ! i)) mF (js_or a (VStr ''count''))
                   = Some (data ! i ! j)
               \<and> (matching rs dv sv (D ! j) (S ! i) = [] \<longrightarrow> data ! i ! j = Fin 0)))
      \<and> svz_distinct D \<and> svz_distinct S
      \<and> (\<forall>x\<in>set dv. \<exists>y\<in>set D. same_value_zero y x)
      \<and> (\<forall>x\<in>set sv. \<exists>y\<in>set S. same_value_zero y x)
      \<and> set D \<subseteq> set dv \<and> set S \<subseteq> set sv
      \<and> (\<forall>d s. matching rs dv sv d s =
            map ((!) rs)
              (filter (\<lambda>k. loose_eq (k, read_prop (rs ! k) (ToString dimF)) d
                          \<and> loose_eq (k, read_prop (rs ! k) (ToString serF)) s)
                 [0 ..< length rs]))
      \<and> (\<forall>i j u v. loose_eq (i, VStr u) (j, VStr v) = (u = v)
                   \<and> same_value_zero (i, VStr u) (j, VStr v) = (u = v))"
proof -
  let ?agg = "js_or a (VStr ''count'')"
  define c where "c m = the (aggregateValues m mF ?agg)" for m
  define g where "g s d = (if matching rs dv sv d s \<noteq> [] then c (matching rs dv sv d s) else Fin 0)"
    for s d
  define data where "data = map (\<lambda>s. map (g s) D) S"
  have nn: "\<And>m. set m \<subseteq> set rs \<Longrightarrow> list_all (\<lambda>x. \<not> nullish x) m"
    using rs(3) by (auto simp: list_all_iff)
  have cell: "\<And>m. set m \<subseteq> set rs \<Longrightarrow> aggregateValues m mF ?agg = Some (c m)"
    using aggregateValues_total [OF nn] by (fastforce simp: c_def)
  have c0: "c [] = Fin 0"
    by (simp add: c_def aggregateValues_empty)
  have "stacked_chart (\<lambda>m. aggregateValues m mF ?agg) rs dimF serF =
     Some (chart (VArr (map (\<lambda>d. dimension_label (snd d)) D))
       (map (\<lambda>(i, s). series_dataset i (snd s) (map (g s) D)) (enumerate 0 S)))"
  proof -
    have "stacked_chart (\<lambda>m. aggregateValues m mF ?agg) rs dimF serF =
     Some (chart (VArr (map (\<lambda>d. dimension_label (snd d)) D))
       (map (\<lambda>(i, s). series_dataset i (snd s)
               (map (\<lambda>d. if matching rs dv sv d s \<noteq> [] then c (matching rs dv sv d s)
                         else Fin 0) D))
            (enumerate 0 S)))"
      unfolding D_def S_def dv_def sv_def
      by (rule stacked_chart_shape [OF rs(3)]) (simp add: cell)
    also have "(\<lambda>(i, s). series_dataset i (snd s)
               (map (\<lambda>d. if matching rs dv sv d s \<noteq> [] then c (matching rs dv sv d s)
                         else Fin 0) D))
          = (\<lambda>(i, s). series_dataset i (snd s) (map (g s) D))"
      by (simp add: g_def [abs_def])
    finally show ?thesis .
  qed
  then have rc: "rule_chartDefinition (VStr ''bar'') cfg sr =
     Some (Some (chart (VArr (map (\<lambda>d. dimension_label (snd d)) D))
       (map (\<lambda>(i, s). series_dataset i (snd s) (map (g s) D)) (enumerate 0 S))))"
    by (simp add: rule_chartDefinition_stacked [OF cd df sf mf ag st rs(1,2)])
  have el: "map (\<lambda>(i, s). series_dataset i (snd s) (data ! i)) (enumerate 0 S)
      = map (\<lambda>(i, s). series_dataset i (snd s) (map (g s) D)) (enumerate 0 S)"
    unfolding data_def by (rule map_cong) (auto simp: in_set_enumerate_eq)
  have 1: "getChartData parse dark r =
        Some (chart (VArr (map (\<lambda>d. dimension_label (snd d)) D))
                (map (\<lambda>(i, s). series_dataset i (snd s) (data ! i)) (enumerate 0 S)))"
    unfolding el
    by (simp only: getChartData_rules [OF rr] apply_rules_def rc or_else_result)
  have 2: "length data = length S" by (simp add: data_def)
  have 3: "\<forall>i<length S. length (data ! i) = length D
           \<and> (\<forall>j<length D.
                 aggregateValues (matching rs dv sv (D ! j) (S ! i)) mF ?agg = Some (data ! i ! j)
               \<and> (matching rs dv sv (D ! j) (S ! i) = [] \<longrightarrow> data ! i ! j = Fin 0))"
    by (simp add: data_def g_def cell matching_subset c0)
  have 4: "svz_distinct D" "svz_distinct S"
    "\<forall>x\<in>set dv. \<exists>y\<in>set D. same_value_zero y x"
    "\<forall>x\<in>set sv. \<exists>y\<in>set S. same_value_zero y x"
    "set D \<subseteq> set dv" "set S \<subseteq> set sv"
    using Set_values_props [of dv] Set_values_props [of sv] by (simp_all add: D_def S_def)
  have 5: "\<forall>d s. matching rs dv sv d s =
            map ((!) rs)
              (filter (\<lambda>k. loose_eq (k, read_prop (rs ! k) (ToString dimF)) d
                          \<and> loose_eq (k, read_prop (rs ! k) (ToString serF)) s)
                 [0 ..< length rs])"
    unfolding dv_def sv_def by (simp only: matching_field_values) simp
  have 6: "\<forall>i j u v. loose_eq (i, VStr u) (j, VStr v) = (u = v)
                   \<and> same_value_zero (i, VStr u) (j, VStr v) = (u = v)"
    by (simp only: strings_equal) simp
  show ?thesis
    by (intro exI [of _ data] conjI) (rule 1 2 3 4 5 6)+
qed

lemma stacked_bar_scenario_B:
  "\<exists>data. getChartData (\<lambda>s. None) False
             (example_report ''bar'' (VObj [(''stacked'', VBool True)]) scenario_B_payload) =
        Some (chart (VArr [VStr ''A'', VStr ''B''])
                (map (\<lambda>(i, s). series_dataset i (snd s) (data ! i))
                     (enumerate 0 [(0, VStr ''X''), (1, VStr ''Y'')])))
      \<and> data ! 0 ! 0 = Fin 2 \<and> data ! 0 ! 1 = Fin 1 \<and> data ! 1 ! 0 = Fin 1 \<and> data ! 1 ! 1 = Fin 0"
proof -
  let ?cfg = "VObj [(''stacked'', VBool True)]"
  let ?r = "example_report ''bar'' ?cfg scenario_B_payload"
  let ?dv = "field_values scenario_B (VStr ''region'')"
  let ?sv = "field_values scenario_B (VStr ''product'')"
  have rr: "reaches_rules (\<lambda>s. None) ?r (VStr ''bar'') ?cfg scenario_B_payload"
    by code_simp
  have h: "get scenario_B_payload ''chartDefinition'' = Some scenario_B_definition"
    "truthy scenario_B_definition"
    "get scenario_B_definition ''dimensionField'' = Some (VStr ''region'')"
    "truthy (VStr ''region'')"
    "get scenario_B_definition ''seriesField'' = Some (VStr ''product'')"
    "truthy (VStr ''product'')"
    "get scenario_B_definition ''measureField'' = Some (VStr ''qty'')"
    "get scenario_B_definition ''aggregationType'' = Some (VStr ''count'')"
    "get ?cfg ''stacked'' = Some (VBool True)"
    "truthy (VBool True)"
    "find_records scenario_B_payload = Some (VArr scenario_B)"
    "scenario_B \<noteq> []"
    "list_all (\<lambda>x. \<not> nullish x) scenario_B"
    by code_simp+
  have D: "Set_values ?dv = [(0, VStr ''A''), (2, VStr ''B'')]"
    and S: "Set_values ?sv = [(0, VStr ''X''), (1, VStr ''Y'')]"
    by code_simp+
  have a: "aggregateValues (matching scenario_B ?dv ?sv (0, VStr ''A'') (0, VStr ''X''))
             (VStr ''qty'') (js_or (VStr ''count'') (VStr ''count'')) = Some (Fin 2)"
    "aggregateValues (matching scenario_B ?dv ?sv (2, VStr ''B'') (0, VStr ''X''))
             (VStr ''qty'') (js_or (VStr ''count'') (VStr ''count'')) = Some (Fin 1)"
    "aggregateValues (matching scenario_B ?dv ?sv (0, VStr ''A'') (1, VStr ''Y''))
             (VStr ''qty'') (js_or (VStr ''count'') (VStr ''count'')) = Some (Fin 1)"
    "matching scenario_B ?dv ?sv (2, VStr ''B'') (1, VStr ''Y'') = []"
    by code_simp+
  from stacked_bar_shape [OF rr h, of False]
  obtain data where d: "getChartData (\<lambda>s. None) False ?r =
        Some (chart (VArr (map (\<lambda>d. dimension_label (snd d)) (Set_values ?dv)))
                (map (\<lambda>(i, s). series_dataset i (snd s) (data ! i)) (enumerate 0 (Set_values ?sv))))"
    and c: "\<forall>i<length (Set_values ?sv). length (data ! i) = length (Set_values ?dv)
           \<and> (\<forall>j<length (Set_values ?dv).
                 aggregateValues (matching scenario_B ?dv ?sv (Set_values ?dv ! j) (Set_values ?sv ! i))
                    (VStr ''qty'') (js_or (VStr ''count'') (VStr ''count''))
                   = Some (data ! i ! j)
               \<and> (matching scenario_B ?dv ?sv (Set_values ?dv ! j) (Set_values ?sv ! i) = []
                    \<longrightarrow> data ! i ! j = Fin 0))"
    by (elim exE conjE) (rule that)
  from c [unfolded D S] have "data ! 0 ! 0 = Fin 2" "data ! 0 ! 1 = Fin 1" "data ! 1 ! 0 = Fin 1"
    "data ! 1 ! 1 = Fin 0"
    using a by (auto simp: less_Suc_eq)
  moreover from d have "getChartData (\<lambda>s. None) False ?r =
        Some (chart (VArr [VStr ''A'', VStr ''B''])
                (map (\<lambda>(i, s). series_dataset i (snd s) (data ! i))
                     (enumerate 0 [(0, VStr ''X''), (1, VStr ''Y'')])))"
    unfolding D S by (simp add: dimension_label_def)
  ultimately show ?thesis by blast
qed

text \<open>
  C6. The claim: each point of a stacked bar chart is the selected aggregation of the
  records that match its dimension value and its series value. The Builder computes the
  point with \<^verbatim>\<open>_aggregateValues\<close>, whose \<^verbatim>\<open>average\<close> keeps a value that does not parse as
  a 0 (see C1). On the records \<^verbatim>\<open>{region: "A", product: "X", qty: 10}\<close> and
  \<^verbatim>\<open>{region: "A", product: "X", qty: "abc"}\<close> with the aggregation \<^verbatim>\<open>average\<close>, the chart
  has the one label A and the one dataset X, and its one cell holds both records. The
  text \<^verbatim>\<open>abc\<close> does not parse, so the average of the values that parse is
  \<open>10 / 1 = 10\<close>; the Builder returns \<open>(10 + 0) / 2 = 5\<close>.
\<close>

theorem C6_stacked_average:
  "parseFloat (VStr ''abc'') = NaN
   \<and> getChartData (\<lambda>s. None) False
        (example_report ''bar'' (VObj [(''stacked'', VBool True)]) stacked_average_payload)
       = Some (VObj [(''labels'', VArr [VStr ''A'']),
                     (''datasets'', VArr [VObj [
                        (''label'', VStr ''X''),
                        (''data'', VArr [VNum (Fin 5)]),
                        (''backgroundColor'', VStr ''rgba(75, 192, 192, 0.8)''),
                        (''borderColor'', VStr ''rgba(75, 192, 192, 1)''),
                        (''borderWidth'', VNum (Fin 1))]])])"
  by code_simp

section \<open>The Chart Data Builder: the legacy field selection\<close>






section \<open>The Chart Data Builder: dates of a multi-model payload\<close>

lemma map_of_bump_map:
  "map_of (map (\<lambda>(k', n). if k' = k then (k', f n) else (k', n)) cs) k''
     = (if k'' = k then map_option f (map_of cs k) else map_of cs k'')"
  by (induction cs) auto

lemma inherited_proto: "inherited ''__proto__''"
  by (simp add: inherited_def)

lemma bump_step:
  assumes k: "\<not> inherited k"
    and cs: "\<And>k'. map_of cs k' =
               (if k' \<in> set ks then Some (Fin (of_nat (count_list ks k'))) else None)"
  shows "map_of (bump k cs) k' =
           (if k' \<in> set (ks @ [k]) then Some (Fin (of_nat (count_list (ks @ [k]) k'))) else None)"
proof (cases "k \<in> set ks")
  case True
  then have c: "count_list ks k \<noteq> 0"
    by (simp add: count_list_0_iff)
  have m: "map_of cs k = Some (Fin (of_nat (count_list ks k)))"
    using True by (simp add: cs)
  have f: "js_add (or_zero (Fin (of_nat (count_list ks k)))) (Fin 1)
             = Fin (of_nat (count_list ks k + 1))"
    using c by (simp add: js_add_def or_zero_def)
  show ?thesis
    using True m f by (auto simp: bump_def map_of_bump_map cs)
next
  case False
  then have m: "map_of cs k = None"
    by (simp add: cs)
  have p: "k \<noteq> ''__proto__''"
    using k inherited_proto by auto
  have "bump k cs = cs @ [(k, Fin 1)]"
    using k p by (simp add: bump_def m)
  then show ?thesis
    using False by (auto simp: map_add_def cs count_list_0_iff)
qed

lemma bump_fold:
  assumes "list_all (\<lambda>k. \<not> inherited k) ks"
  shows "map_of (foldl (\<lambda>cs k. bump k cs) [] ks) k' =
           (if k' \<in> set ks then Some (Fin (of_nat (count_list ks k'))) else None)"
  using assms
proof (induction ks arbitrary: k' rule: rev_induct)
  case Nil
  show ?case by simp
next
  case (snoc k ks)
  then have k: "\<not> inherited k" and ks: "list_all (\<lambda>k. \<not> inherited k) ks"
    by simp_all
  have "map_of (bump k (foldl (\<lambda>cs k. bump k cs) [] ks)) k' =
           (if k' \<in> set (ks @ [k]) then Some (Fin (of_nat (count_list (ks @ [k]) k'))) else None)"
    by (rule bump_step [OF k]) (rule snoc.IH [OF ks])
  then show ?case by simp
qed

lemma bump_keys:
  assumes "list_all (\<lambda>k. \<not> inherited k) ks"
  shows "fst ` set (foldl (\<lambda>cs k. bump k cs) [] ks) = set ks"
proof -
  let ?cs = "foldl (\<lambda>cs k. bump k cs) [] ks"
  have "dom (map_of ?cs) = set ks"
    by (auto simp: bump_fold [OF assms] dom_def)
  then show ?thesis
    by (simp add: dom_map_of_conv_image_fst)
qed

lemma fold_buckets:
  "foldl (\<lambda>cs x. case b x of Some k \<Rightarrow> bump k cs | None \<Rightarrow> cs) cs rs
     = foldl (\<lambda>cs k. bump k cs) cs (List.map_filter b rs)"
  by (induction rs arbitrary: cs) (auto simp: List.map_filter_def split: option.splits)

lemma count_dates_buckets:
  assumes nn: "list_all (\<lambda>x. \<not> nullish x) rs"
    and nt: "list_all (\<lambda>x. date_key (read_prop x f) \<noteq> None) rs"
  shows "count_dates rs f = Some (foldl (\<lambda>cs k. bump k cs) [] (buckets rs f))"
proof -
  have "count_dates rs f
      = Some (foldl (\<lambda>cs x. case bucket (read_prop x f) of Some k \<Rightarrow> bump k cs | None \<Rightarrow> cs) [] rs)"
    unfolding count_dates_def
  proof (intro foldM_foldl)
    fix s x assume "x \<in> set rs"
    then have "\<not> nullish x" "date_key (read_prop x f) \<noteq> None"
      using nn nt by (simp_all add: list_all_iff)
    then show "get x f \<bind> (\<lambda>v. date_key v \<bind>
                 (\<lambda>dateValue. Some (if truthy dateValue then bump (ToString dateValue) s else s)))
        = Some (case bucket (read_prop x f) of Some k \<Rightarrow> bump k s | None \<Rightarrow> s)"
      by (auto simp: get_read_prop bucket_def)
  qed
  then show ?thesis by (simp add: fold_buckets buckets_def)
qed

lemma sorted_dates:
  assumes "list_all (\<lambda>k. \<not> inherited k) ks"
  shows "sort (own_keys (foldl (\<lambda>cs k. bump k cs) [] ks)) = sorted_list_of_set (set ks)"
proof -
  let ?cs = "foldl (\<lambda>cs k. bump k cs) [] ks"
  have "set (sort (own_keys ?cs)) = set ks"
    by (simp add: own_keys_set bump_keys [OF assms])
  moreover have "sorted (sort (own_keys ?cs))" "distinct (sort (own_keys ?cs))"
    by (simp_all add: own_keys_distinct)
  ultimately show ?thesis
    by (metis sorted_list_of_set.idem_if_sorted_distinct)
qed

lemma date_part_takeWhile:
  "date_part s = takeWhile (\<lambda>c. c \<noteq> CHR ''T'' \<and> c \<noteq> CHR '' '') s"
  unfolding date_part_def split_first_def
  by (induction s) auto

lemma bucket_string:
  "bucket (VStr s) = (if date_part s = [] then None else Some (date_part s))"
  by (simp add: bucket_def date_key_def truthy_def)

lemma is_digit_not_separator: "is_digit c \<Longrightarrow> c \<noteq> CHR ''T'' \<and> c \<noteq> CHR '' ''"
  by (auto simp: is_digit_def)

lemma iso_date_bucket: "iso_date_prefix s \<Longrightarrow> bucket (VStr s) \<noteq> None"
proof -
  assume a: "iso_date_prefix s"
  then obtain c cs where s: "s = c # cs" by (cases s) (auto simp: iso_date_prefix_def)
  with a have "is_digit c" by (simp add: iso_date_prefix_def)
  then have "date_part s \<noteq> []"
    using is_digit_not_separator [of c] by (simp add: date_part_takeWhile s)
  then show ?thesis by (simp add: bucket_string)
qed

lemma sort_key_first_minimum:
  "i < length xs \<Longrightarrow> (\<forall>j<length xs. f (xs ! i) \<le> f (xs ! j)) \<Longrightarrow>
   (\<forall>j<i. f (xs ! i) < f (xs ! j)) \<Longrightarrow> \<exists>rest. sort_key f xs = xs ! i # rest"
proof (induction xs arbitrary: i)
  case Nil
  then show ?case by simp
next
  case (Cons x xs)
  show ?case
  proof (cases i)
    case 0
    show ?thesis
    proof (cases "sort_key f xs")
      case Nil
      then show ?thesis using 0 by simp
    next
      case (Cons y ys)
      then have "y \<in> set xs"
        by (metis list.set_intros(1) set_sort)
      then obtain j where "j < length xs" "xs ! j = y"
        by (auto simp: in_set_conv_nth)
      then have "f x \<le> f y"
        using Cons.prems(2) 0 by (auto dest: spec [where x = "Suc j"])
      then show ?thesis using 0 Cons by simp
    qed
  next
    case (Suc k)
    have k: "k < length xs" using Cons.prems(1) Suc by simp
    have m: "\<forall>j<length xs. f (xs ! k) \<le> f (xs ! j)"
      using Cons.prems(2) Suc by (auto dest: spec [where x = "Suc j" for j])
    have s: "\<forall>j<k. f (xs ! k) < f (xs ! j)"
      using Cons.prems(3) Suc by (auto dest: spec [where x = "Suc j" for j])
    from Cons.IH [OF k m s] obtain rest where r: "sort_key f xs = xs ! k # rest" by blast
    have "f (xs ! k) < f x"
      using Cons.prems(3) Suc by (auto dest: spec [where x = 0])
    then have "\<not> f x \<le> f (xs ! k)" by (simp add: not_le)
    then show ?thesis using r Suc by simp
  qed
qed

lemma findM_none: "(\<And>x. x \<in> set xs \<Longrightarrow> p x = Some False) \<Longrightarrow> findM p xs = Some None"
  by (induction xs) simp_all

lemma records_owner_truthy: "get v ''records'' = Some (VArr rs) \<Longrightarrow> truthy v"
proof -
  have i: "\<not> is_index ''records''" by code_simp
  assume "get v ''records'' = Some (VArr rs)"
  then show ?thesis
    by (cases v) (auto simp: get_def truthy_def i split: if_splits)
qed

lemma first_record: "rs \<noteq> [] \<Longrightarrow> get (VArr rs) ''0'' = Some (hd rs)"
proof -
  have i: "is_index ''0''" "digits_val ''0'' = 0" by code_simp+
  assume "rs \<noteq> []"
  then show ?thesis
    by (cases rs) (simp_all add: get_def i)
qed

lemma length_truthy: "rs \<noteq> [] \<Longrightarrow> get (VArr rs) ''length'' = Some (VNum (Fin (of_nat (length rs))))
    \<and> truthy (VNum (Fin (of_nat (length rs))))"
  by (simp add: get_def truthy_def)

lemma primary_date_chart_result:
  assumes rs: "list_all (\<lambda>x. \<not> nullish x) rs"
    and nt: "list_all (\<lambda>x. date_key (read_prop x f) \<noteq> None) rs"
    and ne: "buckets rs f \<noteq> []"
    and ni: "list_all (\<lambda>k. \<not> inherited k) (buckets rs f)"
    and nm: "model_name primary = Some (VStr nm)"
  shows "primary_date_chart vt primary (VArr rs) f =
     Some (Some (chart (VArr (map VStr (sorted_list_of_set (set (buckets rs f)))))
       [single_dataset vt
          (VStr (if includes_str ''log'' nm then ''User Login Count'' else nm @ '' Count''))
          (length (sorted_list_of_set (set (buckets rs f))))
          (VArr (map (\<lambda>d. num (count_list (buckets rs f) d))
                   (sorted_list_of_set (set (buckets rs f)))))]))"
proof -
  let ?cs = "foldl (\<lambda>cs k. bump k cs) [] (buckets rs f)"
  have c: "count_dates rs f = Some ?cs"
    by (rule count_dates_buckets [OF rs nt])
  have d: "sort (own_keys ?cs) = sorted_list_of_set (set (buckets rs f))"
    by (rule sorted_dates [OF ni])
  have n: "sorted_list_of_set (set (buckets rs f)) \<noteq> []"
    using ne by (metis List.finite_set set_empty sorted_list_of_set.set_sorted_key_list_of_set)
  have l: "map (lookup_count ?cs) (sorted_list_of_set (set (buckets rs f)))
      = map (\<lambda>d. num (count_list (buckets rs f) d)) (sorted_list_of_set (set (buckets rs f)))"
    by (rule map_cong) (simp_all add: lookup_count_def bump_fold [OF ni] num_def)
  show ?thesis
    unfolding primary_date_chart_def date_chart_def
    by (simp add: as_array_def c d n nm includes_log_def l Let_def)
qed

lemma rule_multi_model_primary:
  assumes mm: "get sr ''multi_model'' = Some (VBool True)" "get sr ''results'' = Some (VArr models)"
    and md: "list_all (\<lambda>x. \<not> nullish x \<and> \<not> truthy (read_prop x ''_dateAggregation'')) models"
    and pr: "i < length models" "primary = models ! i"
      "\<forall>j<length models. record_count (models ! j) \<le> record_count primary"
      "\<forall>j<i. record_count (models ! j) < record_count primary"
  shows "rule_multi_model dark vt sr = primary_chart dark vt primary"
proof -
  from pr(1) obtain m ms where ms: "models = m # ms" by (cases models) auto
  have nn: "\<And>x. x \<in> set models \<Longrightarrow> \<not> nullish x"
    and nd: "\<And>x. x \<in> set models \<Longrightarrow> \<not> truthy (read_prop x ''_dateAggregation'')"
    using md by (simp_all add: list_all_iff)
  have t: "truthy (VArr models)" by (simp add: truthy_def)
  have f: "findM (\<lambda>model. do { a \<leftarrow> get model ''_dateAggregation''; Some (truthy a) }) models
             = Some None"
    by (rule findM_none) (simp add: get_read_prop nn nd)
  have l: "mapM (\<lambda>x. do { l \<leftarrow> get x ''model_label''; mo \<leftarrow> get x ''model'';
                          Some (js_or l mo) }) models
             = Some (map (\<lambda>x. js_or (read_prop x ''model_label'') (read_prop x ''model'')) models)"
    by (rule mapM_map) (simp add: get_read_prop nn)
  have "\<exists>rest. sort_key (\<lambda>x. - record_count x) models = models ! i # rest"
    using pr by (intro sort_key_first_minimum) simp_all
  then obtain rest where s: "sort_key (\<lambda>x. - record_count x) models = primary # rest"
    using pr(2) by blast
  show ?thesis
    unfolding rule_multi_model_def mm
    using f l s t unfolding ms
    by (simp del: findM.simps mapM.simps sort_key_simps)
qed

lemma primary_chart_date:
  assumes prs: "get primary ''records'' = Some (VArr rs)" "rs \<noteq> []"
    and fd: "find (\<lambda>k. \<not> technical k \<and> date_like (read_prop (hd rs) k)) (enum_keys (hd rs)) = Some f"
      "f \<noteq> []"
  shows "primary_chart dark vt primary = primary_date_chart vt primary (VArr rs) f"
proof -
  have t: "truthy primary" "truthy (VArr rs)"
    using records_owner_truthy [OF prs(1)] by (simp_all add: truthy_def)
  show ?thesis
    unfolding primary_chart_def
    using length_truthy [OF prs(2)] first_record [OF prs(2)] t
    by (simp add: prs fd when_found_def)
qed

lemma iso_bucket_not_inherited: "iso_date_prefix s \<Longrightarrow> \<not> inherited (date_part s)"
proof -
  assume a: "iso_date_prefix s"
  then obtain c cs where s: "s = c # cs" by (cases s) (auto simp: iso_date_prefix_def)
  with a have d: "is_digit c" by (simp add: iso_date_prefix_def)
  then have "date_part s = c # takeWhile (\<lambda>c. c \<noteq> CHR ''T'' \<and> c \<noteq> CHR '' '') cs"
    using is_digit_not_separator [of c] by (simp add: date_part_takeWhile s)
  moreover have "c \<noteq> CHR ''c''" "c \<noteq> CHR ''h''" "c \<noteq> CHR ''i''" "c \<noteq> CHR ''p''"
    "c \<noteq> CHR ''t''" "c \<noteq> CHR ''v''" "c \<noteq> CHR ''_''"
    using d by (auto simp: is_digit_def)
  ultimately show ?thesis
    by (simp add: inherited_def)
qed

lemma model_name_read:
  "\<not> nullish m \<Longrightarrow>
   model_name m = Some (js_or (js_or (read_prop m ''model_label'') (read_prop m ''model'')) (VStr []))"
  by (simp add: model_name_def get_read_prop)

text \<open>
  C7. The claim: the dataset is named \<^verbatim>\<open>User Login Count\<close> when the model name contains
  \<^verbatim>\<open>log\<close>, and \<^verbatim>\<open><model> Count\<close> otherwise. The code tests and prints
  \<^verbatim>\<open>model_label || model || ''\<close>: the label of the model, and its name only when it has no
  label. In the payload of the component's test suite the model with the most records is
  \<^verbatim>\<open>res.users.log\<close>, whose name contains \<^verbatim>\<open>log\<close>, with the label \<^verbatim>\<open>User Logs\<close>, which
  does not: the claim gives \<^verbatim>\<open>User Login Count\<close>, the code \<^verbatim>\<open>User Logs Count\<close>.
\<close>

theorem C7_counterexample:
  "read_prop (login_models ! 1) ''model'' = VStr ''res.users.log''
   \<and> includes_str ''log'' ''res.users.log''
   \<and> read_prop (login_models ! 1) ''model_label'' = VStr ''User Logs''
   \<and> \<not> includes_str ''log'' ''User Logs''
   \<and> getChartData (\<lambda>s. None) False (example_report ''line'' (VObj []) login_payload)
       = Some (VObj [(''labels'', VArr [VStr ''2025-03-14'', VStr ''2025-03-15'']),
                     (''datasets'', VArr [VObj [
                        (''label'', VStr ''User Logs Count''),
                        (''data'', VArr [VNum (Fin 1), VNum (Fin 2)]),
                        (''backgroundColor'', VStr ''rgba(75, 192, 192, 0.2)''),
                        (''borderColor'', VStr ''rgba(75, 192, 192, 1)''),
                        (''borderWidth'', VNum (Fin 1))]])])"
  by code_simp

text \<open>
  C7, as amended. A multi-model payload that reaches the multi-model rule (no chart
  definition, no legacy selection, not an aggregation result), none of whose models
  carries \<^verbatim>\<open>_dateAggregation\<close>. The primary model is the model with the most records, the
  first of them when several have as many. Its records are a non-empty array without
  null, the first record has a date-shaped field that is not technical, and \<open>f\<close> is the
  first such field. No record holds an invalid \<^verbatim>\<open>Date\<close> in \<open>f\<close>, some record has a bucket,
  and neither \<open>f\<close> nor a bucket is the name of a member that every object inherits, which
  no date is.
  Then the Builder returns one dataset: the labels are the buckets of the records in
  ascending order without repetition, and the point of a label is the number of records
  in that bucket. The dataset is named after \<open>nm\<close>, the label of the primary model, or its
  name when the label is missing or empty: \<^verbatim>\<open>User Login Count\<close> when \<open>nm\<close> contains
  \<^verbatim>\<open>log\<close>, and \<open>nm\<close> followed by \<^verbatim>\<open>Count\<close> otherwise. The bucket of a string is its part
  before the first \<^verbatim>\<open>T\<close> or space, so the time of day is stripped; a record whose value is
  empty is in no bucket; a string that starts with an ISO date has a bucket, and this is
  not an inherited name.
\<close>

theorem C7_date_buckets:
  assumes rr: "reaches_rules parse r vt cfg sr"
    and cd: "get sr ''chartDefinition'' = Some cd" "\<not> truthy cd"
    and lg: "get cfg ''dimensionField'' = Some cdim" "get cfg ''measureField'' = Some cmeas"
      "\<not> (truthy cdim \<and> truthy cmeas)"
    and ag: "get sr ''aggregation'' = Some av" "av \<noteq> VBool True"
    and mm: "get sr ''multi_model'' = Some (VBool True)" "get sr ''results'' = Some (VArr models)"
    and md: "list_all (\<lambda>x. \<not> nullish x \<and> \<not> truthy (read_prop x ''_dateAggregation'')) models"
    and pr: "i < length models" "primary = models ! i"
      "\<forall>j<length models. record_count (models ! j) \<le> record_count primary"
      "\<forall>j<i. record_count (models ! j) < record_count primary"
    and prs: "get primary ''records'' = Some (VArr rs)" "rs \<noteq> []"
      "list_all (\<lambda>x. \<not> nullish x) rs"
    and fd: "find (\<lambda>k. \<not> technical k \<and> date_like (read_prop (hd rs) k)) (enum_keys (hd rs)) = Some f"
      "f \<noteq> []"
    and nt: "list_all (\<lambda>x. date_key (read_prop x f) \<noteq> None) rs"
    and ne: "buckets rs f \<noteq> []"
    and nf: "\<not> inherited f"
    and ni: "list_all (\<lambda>b. \<not> inherited b) (buckets rs f)"
    and nm: "js_or (js_or (read_prop primary ''model_label'') (read_prop primary ''model''))
               (VStr []) = VStr nm"
  defines "dates \<equiv> sorted_list_of_set (set (buckets rs f))"
  shows "getChartData parse dark r =
      Some (chart (VArr (map VStr dates))
        [single_dataset vt
           (VStr (if includes_str ''log'' nm then ''User Login Count'' else nm @ '' Count''))
           (length dates)
           (VArr (map (\<lambda>d. num (count_list (buckets rs f) d)) dates))])
    \<and> sorted dates \<and> distinct dates \<and> set dates = set (buckets rs f)
    \<and> (\<forall>s. bucket (VStr s) = (if date_part s = [] then None else Some (date_part s)))
    \<and> (\<forall>s. date_part s = takeWhile (\<lambda>c. c \<noteq> CHR ''T'' \<and> c \<noteq> CHR '' '') s)
    \<and> (\<forall>s. iso_date_prefix s \<longrightarrow> bucket (VStr s) \<noteq> None \<and> \<not> inherited (date_part s))"
proof -
  have r2: "rule_chartDefinition vt cfg sr = Some None"
    by (simp add: rule_chartDefinition_def cd)
  have r3: "rule_config vt cfg sr = Some None"
    using lg(3) by (auto simp: rule_config_def cd lg(1,2))
  have r4: "rule_aggregation vt sr = Some None"
    by (simp add: rule_aggregation_def ag)
  have mn: "model_name primary = Some (VStr nm)"
    using model_name_read [OF get_Some_not_nullish [OF prs(1)]] nm by simp
  have r5: "rule_multi_model dark vt sr =
      Some (Some (chart (VArr (map VStr dates))
        [single_dataset vt
           (VStr (if includes_str ''log'' nm then ''User Login Count'' else nm @ '' Count''))
           (length dates)
           (VArr (map (\<lambda>d. num (count_list (buckets rs f) d)) dates))]))"
    unfolding rule_multi_model_primary [OF mm md pr] primary_chart_date [OF prs(1,2) fd] dates_def
    by (rule primary_date_chart_result [OF prs(3) nt ne ni mn])
  have 1: "getChartData parse dark r =
      Some (chart (VArr (map VStr dates))
        [single_dataset vt
           (VStr (if includes_str ''log'' nm then ''User Login Count'' else nm @ '' Count''))
           (length dates)
           (VArr (map (\<lambda>d. num (count_list (buckets rs f) d)) dates))])"
    by (simp only: getChartData_rules [OF rr] apply_rules_def r2 r3 r4 r5 or_else_def
          option.case)
  have 2: "sorted dates" "distinct dates" "set dates = set (buckets rs f)"
    by (simp_all add: dates_def)
  have 3: "\<forall>s. iso_date_prefix s \<longrightarrow> bucket (VStr s) \<noteq> None \<and> \<not> inherited (date_part s)"
    using iso_date_bucket iso_bucket_not_inherited by blast
  show ?thesis
    using 1 2 3 bucket_string date_part_takeWhile by blast
qed

theorem C7_date_buckets_witness:
  "getChartData (\<lambda>s. None) False (example_report ''line'' (VObj []) login_payload)
     = Some (chart (VArr [VStr ''2025-03-14'', VStr ''2025-03-15''])
         [single_dataset (VStr ''line'') (VStr ''User Logs Count'') 2 (VArr [num 1, num 2])])
   \<and> getChartData (\<lambda>s. None) False (example_report ''line'' (VObj []) log_payload)
     = Some (chart (VArr [VStr ''2025-03-14'', VStr ''2025-03-15''])
         [single_dataset (VStr ''line'') (VStr ''User Login Count'') 2 (VArr [num 1, num 2])])"
proof -
  let ?f = "''create_date''"
  have h0: "get (VObj []) ''dimensionField'' = Some VUndefined"
    "get (VObj []) ''measureField'' = Some VUndefined"
    "\<not> (truthy VUndefined \<and> truthy VUndefined)"
    "VUndefined \<noteq> VBool True" "\<not> truthy VUndefined"
    by code_simp+
  have hr: "login_records \<noteq> []" "list_all (\<lambda>x. \<not> nullish x) login_records"
    "find (\<lambda>k. \<not> technical k \<and> date_like (read_prop (hd login_records) k))
        (enum_keys (hd login_records)) = Some ?f"
    "?f \<noteq> []"
    "list_all (\<lambda>x. date_key (read_prop x ?f) \<noteq> None) login_records"
    "buckets login_records ?f \<noteq> []"
    "\<not> inherited ?f"
    "list_all (\<lambda>b. \<not> inherited b) (buckets login_records ?f)"
    by code_simp+
  have e: "sorted_list_of_set (set (buckets login_records ?f)) = [''2025-03-14'', ''2025-03-15'']"
    "map (\<lambda>d. num (count_list (buckets login_records ?f) d)) [''2025-03-14'', ''2025-03-15'']
       = [num 1, num 2]"
    "includes_str ''log'' ''User Logs'' = False"
    "includes_str ''log'' ''res.users.log'' = True"
    by code_simp+

  let ?r1 = "example_report ''line'' (VObj []) login_payload"
  let ?p1 = "login_models ! 1"
  have rr1: "reaches_rules (\<lambda>s. None) ?r1 (VStr ''line'') (VObj []) login_payload"
    by code_simp
  have h1: "get login_payload ''chartDefinition'' = Some VUndefined"
    "get login_payload ''aggregation'' = Some VUndefined"
    "get login_payload ''multi_model'' = Some (VBool True)"
    "get login_payload ''results'' = Some (VArr login_models)"
    "list_all (\<lambda>x. \<not> nullish x \<and> \<not> truthy (read_prop x ''_dateAggregation'')) login_models"
    "get ?p1 ''records'' = Some (VArr login_records)"
    "js_or (js_or (read_prop ?p1 ''model_label'') (read_prop ?p1 ''model'')) (VStr [])
       = VStr ''User Logs''"
    by code_simp+
  have c1: "record_count (login_models ! 0) = 1" "record_count (login_models ! 1) = 3"
    "length login_models = 2"
    by code_simp+
  have p1: "1 < length login_models"
    "\<forall>j<length login_models. record_count (login_models ! j) \<le> record_count ?p1"
    "\<forall>j<1. record_count (login_models ! j) < record_count ?p1"
    using c1 by (simp_all add: less_Suc_eq numeral_2_eq_2)
  from C7_date_buckets [OF rr1 h1(1) h0(5) h0(1,2,3) h1(2) h0(4) h1(3,4,5) p1(1) refl p1(2,3)
      h1(6) hr(1,2,3,4,5,6,7,8) h1(7), of False, THEN conjunct1, unfolded e]
  have w1: "getChartData (\<lambda>s. None) False ?r1
     = Some (chart (VArr [VStr ''2025-03-14'', VStr ''2025-03-15''])
         [single_dataset (VStr ''line'') (VStr ''User Logs Count'') 2 (VArr [num 1, num 2])])"
    by (simp add: numeral_2_eq_2)

  let ?r2 = "example_report ''line'' (VObj []) log_payload"
  let ?ms = "[VObj [(''model'', VStr ''res.users.log''), (''records'', VArr login_records)]]"
  let ?p2 = "?ms ! 0"
  have rr2: "reaches_rules (\<lambda>s. None) ?r2 (VStr ''line'') (VObj []) log_payload"
    by code_simp
  have h2: "get log_payload ''chartDefinition'' = Some VUndefined"
    "get log_payload ''aggregation'' = Some VUndefined"
    "get log_payload ''multi_model'' = Some (VBool True)"
    "get log_payload ''results'' = Some (VArr ?ms)"
    "list_all (\<lambda>x. \<not> nullish x \<and> \<not> truthy (read_prop x ''_dateAggregation'')) ?ms"
    "get ?p2 ''records'' = Some (VArr login_records)"
    "js_or (js_or (read_prop ?p2 ''model_label'') (read_prop ?p2 ''model'')) (VStr [])
       = VStr ''res.users.log''"
    by code_simp+
  have p2: "0 < length ?ms"
    "\<forall>j<length ?ms. record_count (?ms ! j) \<le> record_count ?p2"
    "\<forall>j<0. record_count (?ms ! j) < record_count ?p2"
    by simp_all
  from C7_date_buckets [OF rr2 h2(1) h0(5) h0(1,2,3) h2(2) h0(4) h2(3,4,5) p2(1) refl p2(2,3)
      h2(6) hr(1,2,3,4,5,6,7,8) h2(7), of False, THEN conjunct1, unfolded e]
  have w2: "getChartData (\<lambda>s. None) False ?r2
     = Some (chart (VArr [VStr ''2025-03-14'', VStr ''2025-03-15''])
         [single_dataset (VStr ''line'') (VStr ''User Login Count'') 2 (VArr [num 1, num 2])])"
    by (simp add: numeral_2_eq_2)
  from w1 w2 show ?thesis by simp
qed

end
